theory Spec2Isabelle
  imports Complex_Main
begin

section \<open>JavaScript numbers\<close>

text \<open>
  A JavaScript number is modelled as an exact real, or one of the three special values
  of IEEE-754 that the program's arithmetic can produce. The rounding of intermediate
  results to 64-bit doubles is not modelled: model and program can differ only where an
  exact intermediate value lies within rounding error of a comparison threshold or of a
  half-integer that \<open>Math.round\<close> decides. Zero is always \<open>+0\<close> (the program never
  produces \<open>-0\<close>).
\<close>

datatype jsnum = Num real | NaN | PosInf | NegInf

fun js_add :: "jsnum \<Rightarrow> jsnum \<Rightarrow> jsnum" where
  "js_add NaN _ = NaN"
| "js_add _ NaN = NaN"
| "js_add (Num a) (Num b) = Num (a + b)"
| "js_add PosInf NegInf = NaN"
| "js_add NegInf PosInf = NaN"
| "js_add PosInf _ = PosInf"
| "js_add _ PosInf = PosInf"
| "js_add NegInf _ = NegInf"
| "js_add _ NegInf = NegInf"

fun js_neg :: "jsnum \<Rightarrow> jsnum" where
  "js_neg (Num a) = Num (- a)"
| "js_neg NaN = NaN"
| "js_neg PosInf = NegInf"
| "js_neg NegInf = PosInf"

definition js_sub :: "jsnum \<Rightarrow> jsnum \<Rightarrow> jsnum" where
  "js_sub a b = js_add a (js_neg b)"

text \<open>The sign of a non-NaN value, for products and quotients with an infinity.\<close>

fun js_sign :: "jsnum \<Rightarrow> int" where
  "js_sign (Num a) = (if a < 0 then - 1 else if a = 0 then 0 else 1)"
| "js_sign PosInf = 1"
| "js_sign NegInf = - 1"
| "js_sign NaN = 0"

definition js_inf :: "int \<Rightarrow> jsnum" where
  "js_inf s = (if s < 0 then NegInf else PosInf)"

fun js_mul :: "jsnum \<Rightarrow> jsnum \<Rightarrow> jsnum" where
  "js_mul NaN _ = NaN"
| "js_mul _ NaN = NaN"
| "js_mul (Num a) (Num b) = Num (a * b)"
| "js_mul a b = (if js_sign a * js_sign b = 0 then NaN else js_inf (js_sign a * js_sign b))"

fun js_div :: "jsnum \<Rightarrow> jsnum \<Rightarrow> jsnum" where
  "js_div NaN _ = NaN"
| "js_div _ NaN = NaN"
| "js_div (Num a) (Num b) =
     (if b = 0 then (if a = 0 then NaN else if a < 0 then NegInf else PosInf)
      else Num (a / b))"
| "js_div (Num a) _ = Num 0"
| "js_div a (Num b) = js_inf (js_sign a * (if b < 0 then - 1 else 1))"
| "js_div _ _ = NaN"

text \<open>\<open>Math.round\<close>: the nearest integer, a tie going up.\<close>

fun Math_round :: "jsnum \<Rightarrow> jsnum" where
  "Math_round (Num a) = Num (of_int \<lfloor>a + 1 / 2\<rfloor>)"
| "Math_round x = x"

fun js_lt :: "jsnum \<Rightarrow> jsnum \<Rightarrow> bool" where
  "js_lt NaN _ = False"
| "js_lt _ NaN = False"
| "js_lt (Num a) (Num b) = (a < b)"
| "js_lt NegInf NegInf = False"
| "js_lt NegInf _ = True"
| "js_lt _ NegInf = False"
| "js_lt PosInf _ = False"
| "js_lt _ PosInf = True"

definition js_gt :: "jsnum \<Rightarrow> jsnum \<Rightarrow> bool" where
  "js_gt a b = js_lt b a"

definition js_le :: "jsnum \<Rightarrow> jsnum \<Rightarrow> bool" where
  "js_le a b = (a \<noteq> NaN \<and> b \<noteq> NaN \<and> \<not> js_lt b a)"

definition js_ge :: "jsnum \<Rightarrow> jsnum \<Rightarrow> bool" where
  "js_ge a b = js_le b a"

section \<open>Data model\<close>

text \<open>
  One entry of a stage's \<open>elements\<close> array. The fields \<open>value\<close>, \<open>expected\<close> and
  \<open>data\<close> of the source are display text (partly formatted with \<open>toFixed\<close>); no
  decision reads them and they are not modelled. \<open>passed\<close> is the truthiness of the
  source's value. \<open>confidence\<close> is present in the older validator only.
\<close>

record element =
  name :: string
  passed :: bool
  confidence :: "real option"

text \<open>
  The object a stage method returns. Its \<open>passed\<close> and \<open>documentType\<close> properties
  carry the prefix \<open>stage_\<close> here, since the element and the report have fields of the
  same names. \<open>stage_documentType\<close> is \<open>None\<close> where the property is absent (every
  stage but the format stage).
\<close>

record stage_result =
  stage_passed :: bool
  stage_documentType :: "string option"
  elements :: "element list"

text \<open>
  \<open>details\<close> is a JavaScript object: keys in insertion order, which is the order
  \<open>Object.entries\<close> enumerates. \<open>error\<close> and \<open>documentType\<close> are \<open>None\<close> where
  the property is absent.
\<close>

type_synonym details = "(string \<times> stage_result) list"

record report =
  isValid :: bool
  score :: jsnum
  details :: details
  recommendations :: "string list"
  fileSize :: nat
  documentType :: "string option"
  error :: "string option"

section \<open>Score aggregation\<close>

text \<open>
  \<open>calculateScore\<close> is the same text in both validators, apart from the literal
  \<open>weights\<close> table; the table is a parameter here. \<open>weights[category]\<close> of a key
  the table lacks is \<open>undefined\<close>, which arithmetic turns into \<open>NaN\<close>.
\<close>

type_synonym weights = "(string \<times> nat) list"

definition weight_of :: "weights \<Rightarrow> string \<Rightarrow> jsnum" where
  "weight_of W category = (case map_of W category of None \<Rightarrow> NaN | Some w \<Rightarrow> Num (real w))"

definition passed_count :: "element list \<Rightarrow> nat" where
  "passed_count es = length (filter passed es)"

definition categoryScore :: "stage_result \<Rightarrow> jsnum" where
  "categoryScore result =
     js_mul (js_div (Num (real (passed_count (elements result))))
                    (Num (real (length (elements result))))) (Num 100)"

text \<open>The \<open>for\<close> loop over \<open>Object.entries(details)\<close>, on the pair (totalScore, maxScore).\<close>

fun score_loop :: "weights \<Rightarrow> details \<Rightarrow> jsnum \<times> jsnum \<Rightarrow> jsnum \<times> jsnum" where
  "score_loop W [] acc = acc"
| "score_loop W ((category, result) # rest) (totalScore, maxScore) =
     score_loop W rest
       (if elements result \<noteq> []
        then js_add totalScore (js_mul (categoryScore result) (js_div (weight_of W category) (Num 100)))
        else totalScore,
        js_add maxScore (weight_of W category))"

definition calculateScore_with :: "weights \<Rightarrow> details \<Rightarrow> jsnum" where
  "calculateScore_with W ds =
     (case score_loop W ds (Num 0, Num 0) of
        (totalScore, maxScore) \<Rightarrow> Math_round (js_mul (js_div totalScore maxScore) (Num 100)))"

definition weights_table :: weights where
  "weights_table =
     [(''format'', 20), (''structure'', 25), (''design'', 20), (''security'', 25), (''validity'', 10)]"

definition calculateScore :: "details \<Rightarrow> jsnum" where
  "calculateScore ds = calculateScore_with weights_table ds"

text \<open>The table of the older validator.\<close>

definition weights_table_v1 :: weights where
  "weights_table_v1 =
     [(''structure'', 25), (''visible'', 25), (''secondLevel'', 20), (''qr'', 20), (''validity'', 10)]"

definition calculateScore_v1 :: "details \<Rightarrow> jsnum" where
  "calculateScore_v1 ds = calculateScore_with weights_table_v1 ds"

section \<open>Strings\<close>

text \<open>
  A JavaScript string is the list of its UTF-16 code units. Every literal the modelled
  code uses stays below 256, so one \<open>char\<close> is one code unit; the accented letters are
  written by their code (\<open>CHR 0xF1\<close> is n with a tilde).
\<close>

definition startsWith :: "string \<Rightarrow> string \<Rightarrow> bool" where
  "startsWith s p = (take (length p) s = p)"

text \<open>\<open>s.split(c)\<close> for a one-character separator: never empty.\<close>

fun split :: "char \<Rightarrow> string \<Rightarrow> string list" where
  "split c [] = [[]]"
| "split c (x # xs) =
     (if x = c then [] # split c xs
      else (case split c xs of [] \<Rightarrow> [[x]] | y # ys \<Rightarrow> (x # y) # ys))"

text \<open>\<open>xs[i]\<close> of an array: \<open>None\<close> is \<open>undefined\<close>.\<close>

definition item :: "'a list \<Rightarrow> nat \<Rightarrow> 'a option" where
  "item xs i = (if i < length xs then Some (xs ! i) else None)"

text \<open>Truthiness of a string that may be \<open>null\<close> or \<open>undefined\<close>.\<close>

fun truthy :: "string option \<Rightarrow> bool" where
  "truthy None = False"
| "truthy (Some s) = (s \<noteq> [])"

section \<open>Values and thrown values\<close>

text \<open>
  The argument \<open>imageData\<close> is meant to be a data URL, but a caller can pass any value.
  Of a value that is not a string the code observes its truthiness only: \<open>Falsy\<close>
  stands for \<open>null\<close>, \<open>undefined\<close>, 0, \<open>NaN\<close> and \<open>false\<close>, \<open>Truthy\<close> for every other
  value that is not a string (a number, an object). Calling \<open>startsWith\<close> on either
  is a TypeError. The empty string is a string, and falsy.
\<close>

datatype jsval = Str string | Falsy | Truthy

text \<open>
  A thrown value. \<open>Error m\<close> is a value whose \<open>message\<close> property is the string \<open>m\<close>,
  as every \<open>Error\<close> object is; \<open>NoMessage\<close> is a value whose \<open>message\<close> reads
  \<open>undefined\<close> (a thrown string or number, a plain object, the event of a failed image
  load); \<open>Nullish\<close> is \<open>null\<close> or \<open>undefined\<close>, on which reading \<open>message\<close> is itself a
  TypeError. The two TypeErrors that the modelled code can raise carry the message texts
  of the V8 engine; no statement depends on the texts.
\<close>

datatype thrown = Error string | NoMessage | Nullish

definition startsWith_TypeError :: thrown where
  "startsWith_TypeError = Error ''imageData.startsWith is not a function''"

definition message_TypeError :: thrown where
  "message_TypeError = Error (''Cannot read properties of null (reading '' @ [CHR 0x27]
     @ ''message'' @ [CHR 0x27] @ '')'')"

text \<open>
  \<open>extractFileSize\<close> guards against a falsy argument with \<open>!imageData\<close> and then calls
  \<open>imageData.startsWith\<close>, which throws on a truthy value that is not a string.
\<close>

definition extractFileSize :: "jsval \<Rightarrow> thrown + nat" where
  "extractFileSize imageData =
     (case imageData of
        Falsy \<Rightarrow> Inr 0
      | Truthy \<Rightarrow> Inl startsWith_TypeError
      | Str s \<Rightarrow>
          if s = [] \<or> \<not> startsWith s ''data:'' then Inr 0
          else let base64String = item (split (CHR '','') s) 1 in
            if \<not> truthy base64String then Inr 0
            else Inr ((length (the base64String) * 3) div 4))"

section \<open>Patterns\<close>

text \<open>
  The two regular expressions are anchored sequences of one-character classes, so a
  string matches when it has one character per class, each in its class.
\<close>

definition upper :: "char \<Rightarrow> bool" where
  "upper c = (65 \<le> (of_char c :: nat) \<and> (of_char c :: nat) \<le> 90)"

definition digit :: "char \<Rightarrow> bool" where
  "digit c = (48 \<le> (of_char c :: nat) \<and> (of_char c :: nat) \<le> 57)"

definition upper_or_digit :: "char \<Rightarrow> bool" where
  "upper_or_digit c = (upper c \<or> digit c)"

definition sex_letter :: "char \<Rightarrow> bool" where
  "sex_letter c = (c = CHR ''H'' \<or> c = CHR ''M'')"

fun matches :: "(char \<Rightarrow> bool) list \<Rightarrow> string \<Rightarrow> bool" where
  "matches [] [] = True"
| "matches (p # ps) (c # cs) = (p c \<and> matches ps cs)"
| "matches _ _ = False"

definition curpPattern :: "(char \<Rightarrow> bool) list" where
  "curpPattern =
     replicate 4 upper @ replicate 6 digit @ [sex_letter] @ replicate 5 upper
     @ replicate 2 upper_or_digit"

definition electorKeyPattern :: "(char \<Rightarrow> bool) list" where
  "electorKeyPattern = replicate 4 upper @ replicate 10 digit @ replicate 2 upper_or_digit"

definition validateCURPFormat :: "string \<Rightarrow> bool" where
  "validateCURPFormat curp = matches curpPattern curp"

definition validateElectorKeyFormat :: "string \<Rightarrow> bool" where
  "validateElectorKeyFormat key = matches electorKeyPattern key"

section \<open>Evidence\<close>

text \<open>
  What one run observes of the outside world. \<open>createImage\<close> loads \<open>imageData\<close> into
  a new \<open>Image\<close> each time it is called, and the source calls it at six places, each at
  most once in a run: in \<open>validateDocumentFormat\<close>, in \<open>extractTextFromImage\<close> called
  by \<open>validateStructure\<close>, in \<open>detectINEText\<close>, in \<open>validateOfficialDesign\<close>, in
  \<open>validateSecurityElements\<close>, and in \<open>extractTextFromImage\<close> called by
  \<open>validateValidity\<close>. \<open>loads\<close> gives the outcome of the load at each place: \<open>None\<close>
  when the load fails and the promise rejects, else the natural width and height. The
  loads are independent: one may fail after another succeeded. \<open>colors\<close> is the outcome
  of the canvas analysis of \<open>analyzeColors\<close>: \<open>None\<close> when the canvas interface throws,
  else whether a dominant colour is blue (\<open>hasOfficialColors\<close>). \<open>now\<close> is \<open>new Date()\<close>
  in milliseconds.
\<close>

datatype load_site =
  FormatLoad | StructureLoad | INETextLoad | DesignLoad | SecurityLoad | ValidityLoad

record evidence =
  imageData :: jsval
  loads :: "load_site \<Rightarrow> (nat \<times> nat) option"
  colors :: "bool option"
  now :: int

record img =
  naturalWidth :: nat
  naturalHeight :: nat

definition createImage :: "evidence \<Rightarrow> load_site \<Rightarrow> img option" where
  "createImage ev site =
     (case loads ev site of None \<Rightarrow> None
      | Some (w, h) \<Rightarrow> Some \<lparr>naturalWidth = w, naturalHeight = h\<rparr>)"

definition analyzeColors :: "evidence \<Rightarrow> img \<Rightarrow> bool option" where
  "analyzeColors ev i = colors ev"

section \<open>Analysis helpers of the validator\<close>

record content_analysis =
  looksLikeINE :: bool
  analysis_confidence :: jsnum

text \<open>
  The aspect test, which the source writes out twice (in \<open>validateDocumentFormat\<close> and
  in \<open>analyzeImageContent\<close>): width over height from 1.5 to 1.7. A height of zero
  gives \<open>Infinity\<close> or \<open>NaN\<close>, which fail it.
\<close>

definition aspect_in_range :: "img \<Rightarrow> bool" where
  "aspect_in_range i =
     (let aspectRatio = js_div (Num (real (naturalWidth i))) (Num (real (naturalHeight i)))
      in js_ge aspectRatio (Num (3 / 2)) \<and> js_le aspectRatio (Num (17 / 10)))"

definition analyzeImageContent :: "img \<Rightarrow> content_analysis" where
  "analyzeImageContent i =
     (let hasCorrectAspect = aspect_in_range i;
          hasGoodResolution = (naturalWidth i \<ge> 600 \<and> naturalHeight i \<ge> 400)
      in \<lparr>looksLikeINE = (hasCorrectAspect \<and> hasGoodResolution),
          analysis_confidence =
            (if hasCorrectAspect \<and> hasGoodResolution then Num (8 / 10) else Num (2 / 10))\<rparr>)"

record extracted_data =
  curp :: "string option"
  electorKey :: "string option"
  holder_name :: "string option"
  issueDate :: "string option"
  expiryDate :: "string option"
  model :: "string option"

text \<open>\<open>None\<close> is the rejection of the image load, which the calling stage catches.\<close>

definition extractTextFromImage :: "evidence \<Rightarrow> load_site \<Rightarrow> extracted_data option" where
  "extractTextFromImage ev site =
     (case createImage ev site of None \<Rightarrow> None
      | Some i \<Rightarrow>
          let analysis = analyzeImageContent i in
          Some \<lparr>curp = (if looksLikeINE analysis then Some ''GOME800705HDFMLR09'' else None),
                electorKey = (if looksLikeINE analysis then Some ''GOME800705HDFMLR09'' else None),
                holder_name = (if looksLikeINE analysis then Some ''GOMEZ MARGARITA'' else None),
                issueDate = (if looksLikeINE analysis then Some ''2019-01-15'' else None),
                expiryDate = (if looksLikeINE analysis then Some ''2029-01-15'' else None),
                model = (if looksLikeINE analysis then Some ''G'' else None)\<rparr>)"

definition detectINEText :: "evidence \<Rightarrow> bool option" where
  "detectINEText ev =
     (case createImage ev INETextLoad of None \<Rightarrow> None
      | Some i \<Rightarrow> Some (looksLikeINE (analyzeImageContent i)))"

definition detectOfficialElements :: "img \<Rightarrow> bool" where
  "detectOfficialElements i = looksLikeINE (analyzeImageContent i)"

definition validateLayout :: "img \<Rightarrow> bool" where
  "validateLayout i = looksLikeINE (analyzeImageContent i)"

definition detectSecurityPatterns :: "img \<Rightarrow> bool" where
  "detectSecurityPatterns i = js_gt (analysis_confidence (analyzeImageContent i)) (Num (7 / 10))"

definition detectReliefElements :: "img \<Rightarrow> bool" where
  "detectReliefElements i = js_gt (analysis_confidence (analyzeImageContent i)) (Num (8 / 10))"

text \<open>Of \<open>analyzeImageQuality\<close> only \<open>isHighQuality\<close> is read by a decision.\<close>

definition analyzeImageQuality :: "img \<Rightarrow> bool" where
  "analyzeImageQuality i =
     (if naturalWidth i \<ge> 1000 \<and> naturalHeight i \<ge> 600 then True
      else if naturalWidth i \<ge> 600 \<and> naturalHeight i \<ge> 400 then True
      else False)"

text \<open>
  \<open>new Date(s)\<close> as milliseconds since the epoch, for the two date strings the
  program ever builds a date from (midnight UTC of the day); any other string is not
  modelled and reads as an invalid date.
\<close>

definition Date_of :: "string \<Rightarrow> jsnum" where
  "Date_of s =
     (if s = ''2019-01-15'' then Num 1547510400000
      else if s = ''2029-01-15'' then Num 1863129600000
      else NaN)"

text \<open>Of \<open>checkValidityPeriod\<close> the field \<open>valid\<close>; the message is display text.\<close>

definition checkValidityPeriod :: "jsnum \<Rightarrow> jsnum \<Rightarrow> bool" where
  "checkValidityPeriod issue expiry =
     (let diffTime = js_sub expiry issue;
          diffYears = js_div diffTime (Num (1000 * 60 * 60 * 24 * 365))
      in if js_gt diffYears (Num 10) then False
         else if js_lt diffYears (Num 1) then False
         else True)"

definition validateModel :: "string option \<Rightarrow> bool" where
  "validateModel m = (case m of None \<Rightarrow> False | Some s \<Rightarrow> s \<in> set [''D'', ''E'', ''F'', ''G'', ''H''])"

section \<open>Stage methods\<close>

text \<open>
  Each stage method builds its result object by pushing one element per check. Its
  whole body is one \<open>try\<close> block: when a step throws, the \<open>catch\<close> pushes one failing
  element named after the stage and the method returns what it has, \<open>passed\<close> still
  false. The steps that can throw are the image loads, the canvas analysis, and in
  \<open>validateDocumentFormat\<close> the call \<open>imageData.startsWith\<close>, which is a TypeError on
  an argument that is not a string and comes after two elements have been pushed.
\<close>

definition check :: "string \<Rightarrow> bool \<Rightarrow> element" where
  "check n p = \<lparr>name = n, passed = p, confidence = None\<rparr>"

definition push :: "stage_result \<Rightarrow> element \<Rightarrow> stage_result" where
  "push results e = results\<lparr>elements := elements results @ [e]\<rparr>"

definition quorum :: "nat \<Rightarrow> stage_result \<Rightarrow> stage_result" where
  "quorum k results = results\<lparr>stage_passed := (passed_count (elements results) \<ge> k)\<rparr>"

definition validateDocumentFormat :: "evidence \<Rightarrow> stage_result" where
  "validateDocumentFormat ev =
     (let results = \<lparr>stage_passed = False, stage_documentType = Some ''unknown'', elements = []\<rparr> in
      case createImage ev FormatLoad of
        None \<Rightarrow> push results (check ''Formato del documento'' False)
      | Some i \<Rightarrow>
          let width = naturalWidth i;
              height = naturalHeight i;
              isCorrectAspect = aspect_in_range i;
              results = push results (check (''Relaci'' @ [CHR 0xF3] @ ''n de aspecto'') isCorrectAspect);
              isSufficientSize = (width \<ge> 500 \<and> height \<ge> 300);
              results = push results (check (''Tama'' @ [CHR 0xF1] @ ''o suficiente'') isSufficientSize)
          in case imageData ev of
               Str s \<Rightarrow>
                 let isImage = startsWith s ''data:image/'';
                     results = push results (check ''Formato de imagen'' isImage)
                 in if isImage \<and> isCorrectAspect \<and> isSufficientSize
                    then results\<lparr>stage_documentType := Some ''potential_ine'', stage_passed := True\<rparr>
                    else if isImage then results\<lparr>stage_documentType := Some ''other_image''\<rparr>
                    else results\<lparr>stage_documentType := Some ''other_document''\<rparr>
             | _ \<Rightarrow> push results (check ''Formato del documento'' False))"

definition validateStructure :: "evidence \<Rightarrow> stage_result" where
  "validateStructure ev =
     (let results = \<lparr>stage_passed = False, stage_documentType = None, elements = []\<rparr> in
      case extractTextFromImage ev StructureLoad of
        None \<Rightarrow> push results (check ''Estructura de datos'' False)
      | Some extractedData \<Rightarrow>
          let results = push results
                (case curp extractedData of
                   Some c \<Rightarrow> if c \<noteq> [] then check ''Formato CURP'' (validateCURPFormat c)
                             else check ''Formato CURP'' False
                 | None \<Rightarrow> check ''Formato CURP'' False);
              results = push results
                (case electorKey extractedData of
                   Some k \<Rightarrow> if k \<noteq> [] then check ''Clave de elector'' (validateElectorKeyFormat k)
                             else check ''Clave de elector'' False
                 | None \<Rightarrow> check ''Clave de elector'' False)
          in case detectINEText ev of
               None \<Rightarrow> push results (check ''Estructura de datos'' False)
             | Some hasINEText \<Rightarrow>
                 quorum 2 (push results (check ''Texto oficial INE'' hasINEText)))"

definition validateOfficialDesign :: "evidence \<Rightarrow> stage_result" where
  "validateOfficialDesign ev =
     (let results = \<lparr>stage_passed = False, stage_documentType = None, elements = []\<rparr> in
      case createImage ev DesignLoad of
        None \<Rightarrow> push results (check (''Dise'' @ [CHR 0xF1] @ ''o oficial'') False)
      | Some i \<Rightarrow>
          (case analyzeColors ev i of
             None \<Rightarrow> push results (check (''Dise'' @ [CHR 0xF1] @ ''o oficial'') False)
           | Some hasOfficialColors \<Rightarrow>
               let results = push results (check ''Espectro de colores'' hasOfficialColors);
                   hasOfficialElements = detectOfficialElements i;
                   results = push results
                     (check (''Elementos gr'' @ [CHR 0xE1] @ ''ficos oficiales'') hasOfficialElements);
                   layoutValid = validateLayout i;
                   results = push results
                     (check (''Distribuci'' @ [CHR 0xF3] @ ''n espacial'') layoutValid)
               in quorum 2 results))"

definition validateSecurityElements :: "evidence \<Rightarrow> stage_result" where
  "validateSecurityElements ev =
     (let results = \<lparr>stage_passed = False, stage_documentType = None, elements = []\<rparr> in
      case createImage ev SecurityLoad of
        None \<Rightarrow> push results (check ''Elementos de seguridad'' False)
      | Some i \<Rightarrow>
          let hasSecurityPatterns = detectSecurityPatterns i;
              results = push results (check ''Patrones de seguridad'' hasSecurityPatterns);
              isHighQuality = analyzeImageQuality i;
              results = push results (check (''Calidad de impresi'' @ [CHR 0xF3] @ ''n'') isHighQuality);
              hasReliefElements = detectReliefElements i;
              results = push results (check ''Elementos en relieve'' hasReliefElements)
          in quorum 2 results)"

definition validateValidity :: "evidence \<Rightarrow> stage_result" where
  "validateValidity ev =
     (let results = \<lparr>stage_passed = False, stage_documentType = None, elements = []\<rparr> in
      case extractTextFromImage ev ValidityLoad of
        None \<Rightarrow> push results (check ''Vigencia'' False)
      | Some extractedData \<Rightarrow>
          if truthy (issueDate extractedData) \<and> truthy (expiryDate extractedData) then
            let currentDate = Num (real_of_int (now ev));
                expiry = Date_of (the (expiryDate extractedData));
                issue = Date_of (the (issueDate extractedData));
                notExpired = js_gt expiry currentDate;
                results = push results (check ''No expirada'' notExpired);
                validityPeriod = checkValidityPeriod issue expiry;
                results = push results (check (''Per'' @ [CHR 0xED] @ ''odo de validez'') validityPeriod);
                validModel = validateModel (model extractedData);
                results = push results (check ''Modelo vigente'' validModel)
            in quorum 2 results
          else quorum 2 (push results (check ''Fechas de vigencia'' False)))"

section \<open>Recommendations\<close>

text \<open>\<open>details.k && !details.k.passed\<close>: the stage is there and did not pass.\<close>

definition failing :: "details \<Rightarrow> string \<Rightarrow> bool" where
  "failing ds k = (case map_of ds k of None \<Rightarrow> False | Some r \<Rightarrow> \<not> stage_passed r)"

definition msg_format :: string where
  "msg_format = ''El documento no tiene el formato adecuado de una INE''"

definition msg_structure :: string where
  "msg_structure = ''Verificar la estructura de datos (CURP y clave de elector)''"

definition msg_design :: string where
  "msg_design = ''El dise'' @ [CHR 0xF1] @ ''o no coincide con los est'' @ [CHR 0xE1]
     @ ''ndares oficiales del INE''"

definition msg_security :: string where
  "msg_security = ''Faltan elementos de seguridad caracter'' @ [CHR 0xED] @ ''sticos del INE''"

definition msg_validity :: string where
  "msg_validity = ''Verificar la vigencia de la credencial''"

definition msg_all_passed :: string where
  "msg_all_passed = ''La credencial pas'' @ [CHR 0xF3] @ '' todas las validaciones principales''"

definition generateRecommendations :: "details \<Rightarrow> string list" where
  "generateRecommendations ds =
     (let recommendations = [] in
      if failing ds ''format'' then recommendations @ [msg_format]
      else
        let recommendations =
              (if failing ds ''structure'' then recommendations @ [msg_structure] else recommendations);
            recommendations =
              (if failing ds ''design'' then recommendations @ [msg_design] else recommendations);
            recommendations =
              (if failing ds ''security'' then recommendations @ [msg_security] else recommendations);
            recommendations =
              (if failing ds ''validity'' then recommendations @ [msg_validity] else recommendations)
        in if recommendations = [] then recommendations @ [msg_all_passed] else recommendations)"

section \<open>The orchestrator\<close>

text \<open>
  \<open>validateINE\<close> calls the five stage methods through \<open>this\<close>. The record \<open>methods\<close>
  stands for \<open>this\<close>: a method either returns its result or throws a value.
  \<open>INEValidator\<close> below is the class as written, whose stage methods catch every fault
  themselves. A call of \<open>validateINE\<close> either returns its report or throws (the promise
  rejects): \<open>extractFileSize\<close> is called while the report is set up, before the \<open>try\<close>,
  and the \<open>catch\<close> reads \<open>error.message\<close>, which throws when the value caught is \<open>null\<close>
  or \<open>undefined\<close> and is \<open>undefined\<close> when the value has no message.
\<close>

record methods =
  formatStage :: "evidence \<Rightarrow> thrown + stage_result"
  structureStage :: "evidence \<Rightarrow> thrown + stage_result"
  designStage :: "evidence \<Rightarrow> thrown + stage_result"
  securityStage :: "evidence \<Rightarrow> thrown + stage_result"
  validityStage :: "evidence \<Rightarrow> thrown + stage_result"

text \<open>\<open>results.details[k] = v\<close>: a new key goes last, a key already there keeps its place.\<close>

fun assign :: "details \<Rightarrow> string \<Rightarrow> stage_result \<Rightarrow> details" where
  "assign [] k v = [(k, v)]"
| "assign ((k', v') # ds) k v = (if k' = k then (k, v) # ds else (k', v') # assign ds k v)"

definition set_detail :: "report \<Rightarrow> string \<Rightarrow> stage_result \<Rightarrow> report" where
  "set_detail results k v = results\<lparr>details := assign (details results) k v\<rparr>"

text \<open>The \<open>catch\<close> of \<open>validateINE\<close>: \<open>results.error = error.message\<close>, then the return.\<close>

definition caught :: "report \<Rightarrow> thrown \<Rightarrow> thrown + report" where
  "caught results t =
     (case t of
        Error m \<Rightarrow> Inr (results\<lparr>error := Some m\<rparr>)
      | NoMessage \<Rightarrow> Inr (results\<lparr>error := None\<rparr>)
      | Nullish \<Rightarrow> Inl message_TypeError)"

definition msg_gate :: string where
  "msg_gate = ''El documento no tiene el formato adecuado para ser una INE v'' @ [CHR 0xE1]
     @ ''lida''"

definition validateINE_with :: "methods \<Rightarrow> evidence \<Rightarrow> thrown + report" where
  "validateINE_with M ev =
     (case extractFileSize (imageData ev) of Inl t \<Rightarrow> Inl t
      | Inr sizeInBytes \<Rightarrow>
      let results = \<lparr>isValid = False, score = Num 0, details = [], recommendations = [],
                      fileSize = sizeInBytes, documentType = Some ''unknown'', error = None\<rparr> in
      case formatStage M ev of Inl f \<Rightarrow> caught results f
      | Inr formatResult \<Rightarrow>
      let results = set_detail results ''format'' formatResult;
          results = results\<lparr>documentType := stage_documentType formatResult\<rparr> in
      if \<not> stage_passed formatResult
      then Inr (results\<lparr>score := Num 0, isValid := False, recommendations := [msg_gate]\<rparr>)
      else
      case structureStage M ev of Inl f \<Rightarrow> caught results f
      | Inr structureResult \<Rightarrow>
      let results = set_detail results ''structure'' structureResult in
      case designStage M ev of Inl f \<Rightarrow> caught results f
      | Inr designResult \<Rightarrow>
      let results = set_detail results ''design'' designResult in
      case securityStage M ev of Inl f \<Rightarrow> caught results f
      | Inr securityResult \<Rightarrow>
      let results = set_detail results ''security'' securityResult in
      case validityStage M ev of Inl f \<Rightarrow> caught results f
      | Inr validityResult \<Rightarrow>
      let results = set_detail results ''validity'' validityResult;
          results = results\<lparr>score := calculateScore (details results)\<rparr>;
          results = results\<lparr>isValid := js_ge (score results) (Num 70)\<rparr>;
          results = results\<lparr>recommendations := generateRecommendations (details results)\<rparr>
      in Inr results)"

definition INEValidator :: methods where
  "INEValidator =
     \<lparr>formatStage = (\<lambda>ev. Inr (validateDocumentFormat ev)),
      structureStage = (\<lambda>ev. Inr (validateStructure ev)),
      designStage = (\<lambda>ev. Inr (validateOfficialDesign ev)),
      securityStage = (\<lambda>ev. Inr (validateSecurityElements ev)),
      validityStage = (\<lambda>ev. Inr (validateValidity ev))\<rparr>"

definition validateINE :: "evidence \<Rightarrow> thrown + report" where
  "validateINE ev = validateINE_with INEValidator ev"

section \<open>The older validator\<close>

text \<open>
  The second source file is an earlier copy of the class, with other stages and with
  detectors that draw their outcome from \<open>Math.random\<close>. A name of this copy that the
  validator above has too carries the suffix \<open>_v1\<close>. A run is given the sequence of numbers that \<open>Math.random\<close> returns,
  each in the interval from 0 up to 1; the counter is the number of draws made so far.
  Inside the \<open>try\<close> blocks of this copy nothing can throw (it loads no image), so they
  never reach their \<open>catch\<close>, and the \<open>error\<close> property that the \<open>catch\<close> of the QR stage
  would set is never there; \<open>extractFileSize\<close> is called before the \<open>try\<close> of
  \<open>validateINE\<close> here too. The \<open>details\<close> property of its structure result is always the empty
  object and is not modelled.
\<close>

type_synonym random_source = "nat \<Rightarrow> real"

definition Math_random :: "random_source \<Rightarrow> nat \<Rightarrow> real \<times> nat" where
  "Math_random rnd k = (rnd k, Suc k)"

type_synonym detector = "random_source \<Rightarrow> nat \<Rightarrow> bool \<times> nat"

definition random_above :: "real \<Rightarrow> detector" where
  "random_above t rnd k = (case Math_random rnd k of (r, k') \<Rightarrow> (r > t, k'))"

definition detectMicrotext :: detector where
  "detectMicrotext = random_above (3 / 10)"

definition detectOVD :: detector where
  "detectOVD = random_above (4 / 10)"

definition detectUVInk :: detector where
  "detectUVInk = random_above (5 / 10)"

definition detectRelief :: detector where
  "detectRelief = random_above (6 / 10)"

definition detectSecurityBackground :: detector where
  "detectSecurityBackground = random_above (4 / 10)"

definition detectEdgeMicrotext :: detector where
  "detectEdgeMicrotext = random_above (3 / 10)"

definition detectFineLinePatterns :: detector where
  "detectFineLinePatterns = random_above (4 / 10)"

definition detectRainbowPrint :: detector where
  "detectRainbowPrint = random_above (5 / 10)"

definition validateDigitalSignature :: detector where
  "validateDigitalSignature = random_above (3 / 10)"

definition verifyQRConsistency :: detector where
  "verifyQRConsistency = random_above (4 / 10)"

definition qr_text :: string where
  "qr_text = ''IDMEX18365777170<<07471163758428007057M2212315MEX<02<<12345<<7GOMEZ<VELAZQUEZ<<MARGARITA<<<<''"

definition decodeQRCode :: "random_source \<Rightarrow> nat \<Rightarrow> string option \<times> nat" where
  "decodeQRCode rnd k =
     (case Math_random rnd k of (r, k') \<Rightarrow> (if r > 2 / 10 then Some qr_text else None, k'))"

definition validateQRStructure :: "string \<Rightarrow> bool" where
  "validateQRStructure qrData = (qrData \<noteq> [] \<and> length qrData > 50)"

definition extractTextFromImage_v1 :: extracted_data where
  "extractTextFromImage_v1 =
     \<lparr>curp = Some ''GOME800705HDFMLR09'', electorKey = Some ''GOME800705HDFMLR09'',
      holder_name = Some ''GOMEZ MARGARITA'', issueDate = Some ''2019-01-15'',
      expiryDate = Some ''2029-01-15'', model = Some ''G''\<rparr>"

definition validateCURP :: "string \<Rightarrow> bool" where
  "validateCURP c = matches curpPattern c"

definition validateElectorKey :: "string \<Rightarrow> bool" where
  "validateElectorKey key = (key \<noteq> [] \<and> length key \<ge> 18)"

definition validateDataConsistency :: "extracted_data \<Rightarrow> bool" where
  "validateDataConsistency d = (truthy (curp d) \<and> truthy (electorKey d) \<and> truthy (holder_name d))"

definition validateStructure_v1 :: stage_result where
  "validateStructure_v1 =
     (let extractedData = extractTextFromImage_v1;
          results = \<lparr>stage_passed = False, stage_documentType = None, elements = []\<rparr>;
          results = (case curp extractedData of
                       Some c \<Rightarrow> if c \<noteq> [] then push results (check ''CURP'' (validateCURP c)) else results
                     | None \<Rightarrow> results);
          results = (case electorKey extractedData of
                       Some k \<Rightarrow> if k \<noteq> [] then push results (check ''Clave de Elector'' (validateElectorKey k))
                                 else results
                     | None \<Rightarrow> results);
          dataConsistent = validateDataConsistency extractedData;
          results = push results (check ''Consistencia de datos'' dataConsistent)
      in quorum 2 results)"

text \<open>
  The loop over the named detectors of a stage: one draw inside the detector, one more
  for the confidence, which is \<open>Math.random() * factor + base\<close> when the detector
  reports the feature and \<open>Math.random() * factor\<close> when it does not.
\<close>

fun detect_loop :: "real \<Rightarrow> real \<Rightarrow> (string \<times> detector) list \<Rightarrow> random_source
    \<Rightarrow> stage_result \<times> nat \<Rightarrow> stage_result \<times> nat" where
  "detect_loop factor base [] rnd acc = acc"
| "detect_loop factor base ((n, method) # rest) rnd (results, k) =
     (case method rnd k of (detected, k1) \<Rightarrow>
      case Math_random rnd k1 of (r, k2) \<Rightarrow>
        detect_loop factor base rest rnd
          (push results \<lparr>name = n, passed = detected,
                         confidence = Some (if detected then r * factor + base else r * factor)\<rparr>, k2))"

definition elementsToCheck :: "(string \<times> detector) list" where
  "elementsToCheck =
     [(''Microtexto INE'', detectMicrotext),
      (''Elementos OVD/OVI'', detectOVD),
      (''Tintas UV'', detectUVInk),
      (''Relieve t'' @ [CHR 0xE1] @ ''ctil'', detectRelief),
      (''Fondo de seguridad'', detectSecurityBackground)]"

definition validateVisibleElements :: "random_source \<Rightarrow> nat \<Rightarrow> stage_result \<times> nat" where
  "validateVisibleElements rnd k =
     (case detect_loop 30 70 elementsToCheck rnd
             (\<lparr>stage_passed = False, stage_documentType = None, elements = []\<rparr>, k) of
        (results, k') \<Rightarrow> (quorum 3 results, k'))"

definition secondLevelElements :: "(string \<times> detector) list" where
  "secondLevelElements =
     [(''Microtexto en bordes'', detectEdgeMicrotext),
      (''Patrones de l'' @ [CHR 0xED] @ ''neas finas'', detectFineLinePatterns),
      (''Impresi'' @ [CHR 0xF3] @ ''n arco'' @ [CHR 0xED] @ ''ris'', detectRainbowPrint)]"

definition validateSecondLevelElements :: "random_source \<Rightarrow> nat \<Rightarrow> stage_result \<times> nat" where
  "validateSecondLevelElements rnd k =
     (case detect_loop 25 75 secondLevelElements rnd
             (\<lparr>stage_passed = False, stage_documentType = None, elements = []\<rparr>, k) of
        (results, k') \<Rightarrow> (quorum 2 results, k'))"

definition validateQRCodes :: "random_source \<Rightarrow> nat \<Rightarrow> stage_result \<times> nat" where
  "validateQRCodes rnd k =
     (let results = \<lparr>stage_passed = False, stage_documentType = None, elements = []\<rparr> in
      case decodeQRCode rnd k of (qrData, k1) \<Rightarrow>
      case (case qrData of
              None \<Rightarrow> (results, k1)
            | Some q \<Rightarrow>
                if q = [] then (results, k1)
                else
                  let qrStructureValid = validateQRStructure q;
                      results = push results (check ''Estructura QR'' qrStructureValid) in
                  case validateDigitalSignature rnd k1 of (digitalSignatureValid, k2) \<Rightarrow>
                  let results = push results (check ''Firma digital'' digitalSignatureValid) in
                  case verifyQRConsistency rnd k2 of (consistencyValid, k3) \<Rightarrow>
                  (push results (check ''Consistencia datos'' consistencyValid), k3)) of
        (results, k') \<Rightarrow>
          (results\<lparr>stage_passed := (elements results \<noteq> [] \<and> passed_count (elements results) \<ge> 2)\<rparr>,
           k'))"

definition validateValidity_v1 :: "evidence \<Rightarrow> stage_result" where
  "validateValidity_v1 ev =
     (let results = \<lparr>stage_passed = False, stage_documentType = None, elements = []\<rparr>;
          extractedData = extractTextFromImage_v1 in
      if truthy (issueDate extractedData) \<and> truthy (expiryDate extractedData) then
        let currentDate = Num (real_of_int (now ev));
            expiry = Date_of (the (expiryDate extractedData));
            issue = Date_of (the (issueDate extractedData));
            notExpired = js_gt expiry currentDate;
            results = push results (check ''No expirada'' notExpired);
            validModel = validateModel (model extractedData);
            results = push results (check ''Modelo vigente'' validModel);
            validityPeriod = checkValidityPeriod issue expiry;
            results = push results (check (''Per'' @ [CHR 0xED] @ ''odo de validez'') validityPeriod)
        in quorum 2 results
      else quorum 2 results)"

definition msg_structure_v1 :: string where
  "msg_structure_v1 = ''Verificar la estructura de CURP y clave de elector''"

definition msg_visible_v1 :: string where
  "msg_visible_v1 = ''M'' @ [CHR 0xFA] @ ''ltiples elementos de seguridad visibles no detectados''"

definition many_visible_failed :: "details \<Rightarrow> bool" where
  "many_visible_failed ds =
     (case map_of ds ''visible'' of
        None \<Rightarrow> False
      | Some r \<Rightarrow> length (filter (\<lambda>e. \<not> passed e) (elements r)) > 2)"

definition generateRecommendations_v1 :: "details \<Rightarrow> string list" where
  "generateRecommendations_v1 ds =
     (let recommendations = [];
          recommendations =
            (if failing ds ''structure'' then recommendations @ [msg_structure_v1] else recommendations);
          recommendations =
            (if many_visible_failed ds then recommendations @ [msg_visible_v1] else recommendations);
          recommendations =
            (if failing ds ''validity'' then recommendations @ [msg_validity] else recommendations)
      in if recommendations = [] then recommendations @ [msg_all_passed] else recommendations)"

definition validateINE_v1 :: "evidence \<Rightarrow> random_source \<Rightarrow> thrown + report" where
  "validateINE_v1 ev rnd =
     (case extractFileSize (imageData ev) of Inl t \<Rightarrow> Inl t
      | Inr sizeInBytes \<Rightarrow>
      let results = \<lparr>isValid = False, score = Num 0, details = [], recommendations = [],
                      fileSize = sizeInBytes, documentType = None, error = None\<rparr>;
          structureResult = validateStructure_v1;
          results = set_detail results ''structure'' structureResult in
      case validateVisibleElements rnd 0 of (visibleResult, k1) \<Rightarrow>
      let results = set_detail results ''visible'' visibleResult in
      case validateSecondLevelElements rnd k1 of (secondLevelResult, k2) \<Rightarrow>
      let results = set_detail results ''secondLevel'' secondLevelResult in
      case validateQRCodes rnd k2 of (qrResult, k3) \<Rightarrow>
      let results = set_detail results ''qr'' qrResult;
          validityResult = validateValidity_v1 ev;
          results = set_detail results ''validity'' validityResult;
          results = results\<lparr>score := calculateScore_v1 (details results)\<rparr>;
          results = results\<lparr>isValid := js_ge (score results) (Num 70)\<rparr>;
          results = results\<lparr>recommendations := generateRecommendations_v1 (details results)\<rparr>
      in Inr results)"

section \<open>Definitions used by the statements\<close>

subsection \<open>The score as the specification words it\<close>

text \<open>
  The specification gives each executed stage a percentage, which is 0 for a stage with
  no outcomes, weighs it, and divides by the sum of the weights of the executed stages.
  These definitions follow those words; the theorems compare them with \<open>score_loop\<close>.
\<close>

definition stageScorePct :: "stage_result \<Rightarrow> real" where
  "stageScorePct r =
     (if elements r = [] then 0
      else real (passed_count (elements r)) / real (length (elements r)) * 100)"

definition weight :: "weights \<Rightarrow> string \<Rightarrow> real" where
  "weight W c = (case map_of W c of None \<Rightarrow> 0 | Some w \<Rightarrow> real w)"

fun weighted_points :: "weights \<Rightarrow> details \<Rightarrow> real" where
  "weighted_points W [] = 0"
| "weighted_points W ((c, r) # ds) = stageScorePct r * (weight W c / 100) + weighted_points W ds"

fun weight_total :: "weights \<Rightarrow> details \<Rightarrow> real" where
  "weight_total W [] = 0"
| "weight_total W ((c, r) # ds) = weight W c + weight_total W ds"

text \<open>Every stage of the details has a weight in the table; every weight is positive.\<close>

definition known :: "weights \<Rightarrow> details \<Rightarrow> bool" where
  "known W ds = list_all (\<lambda>(c, r). map_of W c \<noteq> None) ds"

definition positive :: "weights \<Rightarrow> bool" where
  "positive W = list_all (\<lambda>(k, w). 0 < w) W"

text \<open>Every stage has at least one outcome and all its outcomes passed.\<close>

definition all_pass :: "details \<Rightarrow> bool" where
  "all_pass ds = list_all (\<lambda>(c, r). elements r \<noteq> [] \<and> list_all passed (elements r)) ds"

definition full_pass :: "stage_result \<Rightarrow> bool" where
  "full_pass r = (stage_passed r \<and> elements r \<noteq> [] \<and> list_all passed (elements r))"

subsection \<open>Quorum, faults, recommendations\<close>

text \<open>The stage's flag says exactly whether at least \<open>k\<close> of its outcomes passed.\<close>

definition meets_quorum :: "nat \<Rightarrow> stage_result \<Rightarrow> bool" where
  "meets_quorum k r = (stage_passed r = (k \<le> passed_count (elements r)))"

text \<open>
  The value that reaches the \<open>catch\<close> of \<open>validateINE\<close>, if any: the one thrown by the
  first stage method that throws.
\<close>

definition first_fault :: "methods \<Rightarrow> evidence \<Rightarrow> thrown option" where
  "first_fault M ev =
     (case formatStage M ev of Inl f \<Rightarrow> Some f
      | Inr formatResult \<Rightarrow>
        if \<not> stage_passed formatResult then None
        else case structureStage M ev of Inl f \<Rightarrow> Some f
        | Inr _ \<Rightarrow>
        case designStage M ev of Inl f \<Rightarrow> Some f
        | Inr _ \<Rightarrow>
        case securityStage M ev of Inl f \<Rightarrow> Some f
        | Inr _ \<Rightarrow>
        case validityStage M ev of Inl f \<Rightarrow> Some f
        | Inr _ \<Rightarrow> None)"

text \<open>\<open>error.message\<close> of a thrown value on which it can be read.\<close>

fun message_of :: "thrown \<Rightarrow> string option" where
  "message_of (Error m) = Some m"
| "message_of NoMessage = None"
| "message_of Nullish = None"

text \<open>
  What a stage method returns when its \<open>catch\<close> runs after the outcomes \<open>es\<close> have been
  pushed: those outcomes, then one failing outcome named after the stage, and the flag
  still false. \<open>stage_error\<close> is the case of a fault before the first push.
\<close>

definition cut_short :: "element list \<Rightarrow> string \<Rightarrow> stage_result" where
  "cut_short es n =
     \<lparr>stage_passed = False, stage_documentType = None, elements = es @ [check n False]\<rparr>"

definition stage_error :: "string \<Rightarrow> stage_result" where
  "stage_error n = cut_short [] n"

definition is_string :: "jsval \<Rightarrow> bool" where
  "is_string v = (case v of Str s \<Rightarrow> True | _ \<Rightarrow> False)"

text \<open>A stage is in the details and did not pass.\<close>

definition stage_failed :: "string \<Rightarrow> report \<Rightarrow> bool" where
  "stage_failed k rep = failing (details rep) k"

text \<open>
  An observation of what a call returns: the observation of the report, or the thrown
  value when the call throws.
\<close>

definition observe :: "(report \<Rightarrow> 'a) \<Rightarrow> thrown + report \<Rightarrow> thrown + 'a" where
  "observe f run = map_sum id f run"

text \<open>The stages after the format stage, in pipeline order, and the message of each.\<close>

definition pipeline :: "string list" where
  "pipeline = [''structure'', ''design'', ''security'', ''validity'']"

definition stage_message :: "string \<Rightarrow> string" where
  "stage_message k =
     (if k = ''structure'' then msg_structure
      else if k = ''design'' then msg_design
      else if k = ''security'' then msg_security
      else msg_validity)"

subsection \<open>Reports up to confidence values\<close>

definition erase_element :: "element \<Rightarrow> element" where
  "erase_element e = e\<lparr>confidence := None\<rparr>"

definition erase_stage :: "stage_result \<Rightarrow> stage_result" where
  "erase_stage r = r\<lparr>elements := map erase_element (elements r)\<rparr>"

definition erase_details :: "details \<Rightarrow> details" where
  "erase_details ds = map (\<lambda>(c, r). (c, erase_stage r)) ds"

definition erase_confidence :: "report \<Rightarrow> report" where
  "erase_confidence rep = rep\<lparr>details := erase_details (details rep)\<rparr>"

text \<open>The detector outcomes of a run: per stage, the name and pass flag of each check.\<close>

definition outcome_of :: "element \<Rightarrow> string \<times> bool" where
  "outcome_of e = (name e, passed e)"

definition outcomes :: "report \<Rightarrow> (string \<times> (string \<times> bool) list) list" where
  "outcomes rep = map (\<lambda>(c, r). (c, map outcome_of (elements r))) (details rep)"

definition confidences :: "string \<Rightarrow> report \<Rightarrow> real option list" where
  "confidences k rep =
     (case map_of (details rep) k of None \<Rightarrow> [] | Some r \<Rightarrow> map confidence (elements r))"

text \<open>The report the older validator assembles from its five stage results.\<close>

definition finish_v1 :: "nat \<Rightarrow> details \<Rightarrow> report" where
  "finish_v1 n ds =
     \<lparr>isValid = js_ge (calculateScore_v1 ds) (Num 70), score = calculateScore_v1 ds,
      details = ds, recommendations = generateRecommendations_v1 ds,
      fileSize = n, documentType = None, error = None\<rparr>"

subsection \<open>Evidence up to the wall clock\<close>

text \<open>
  Two evidences agree in everything a run observes but the current time, and the current
  time of both lies on the same side of the expiry date that the text extraction
  reports (15 January 2029, midnight UTC).
\<close>

definition same_evidence :: "evidence \<Rightarrow> evidence \<Rightarrow> bool" where
  "same_evidence ev ev' =
     (imageData ev = imageData ev' \<and> loads ev = loads ev' \<and> colors ev = colors ev'
      \<and> (now ev < 1863129600000) = (now ev' < 1863129600000))"

subsection \<open>Concrete inputs\<close>

text \<open>
  A 1000 by 600 image, given as a data URL, that loads every time and analyses without
  fault, in November 2023.
\<close>

definition sample_ev :: evidence where
  "sample_ev = \<lparr>imageData = Str ''data:image/png;base64,AAAA'',
               loads = (\<lambda>site. Some (1000, 600)), colors = Some True, now = 1700000000000\<rparr>"

text \<open>The same evidence, observed ten weeks earlier.\<close>

definition earlier_ev :: evidence where
  "earlier_ev = sample_ev\<lparr>now := 1694000000000\<rparr>"

text \<open>A square image: the aspect check of the format stage fails.\<close>

definition small_ev :: evidence where
  "small_ev = sample_ev\<lparr>loads := (\<lambda>site. Some (100, 100))\<rparr>"

text \<open>The same image as \<open>sample_ev\<close>, with a canvas that throws.\<close>

definition fault_ev :: evidence where
  "fault_ev = sample_ev\<lparr>colors := None\<rparr>"

text \<open>An image that never loads.\<close>

definition broken_ev :: evidence where
  "broken_ev = sample_ev\<lparr>loads := (\<lambda>site. None)\<rparr>"

text \<open>The load of \<open>detectINEText\<close> fails; every other load succeeds.\<close>

definition second_load_fails_ev :: evidence where
  "second_load_fails_ev =
     sample_ev\<lparr>loads := (\<lambda>site. if site = INETextLoad then None else Some (1000, 600))\<rparr>"

text \<open>The argument is an object (a \<open>File\<close>, say) and not a string.\<close>

definition object_ev :: evidence where
  "object_ev = sample_ev\<lparr>imageData := Truthy\<rparr>"

text \<open>
  The class with a structure stage that throws: an \<open>Error\<close>, a value without message,
  and \<open>null\<close>.
\<close>

definition faulty_methods :: methods where
  "faulty_methods = INEValidator\<lparr>structureStage := (\<lambda>ev. Inl (Error ''text extraction failed''))\<rparr>"

definition bare_methods :: methods where
  "bare_methods = INEValidator\<lparr>structureStage := (\<lambda>ev. Inl NoMessage)\<rparr>"

definition null_methods :: methods where
  "null_methods = INEValidator\<lparr>structureStage := (\<lambda>ev. Inl Nullish)\<rparr>"

text \<open>Stage results of the scenario: three checks per stage, structure passing one of them.\<close>

definition three_of_three :: stage_result where
  "three_of_three =
     \<lparr>stage_passed = True, stage_documentType = None,
      elements = [check ''a'' True, check ''b'' True, check ''c'' True]\<rparr>"

definition one_of_three :: stage_result where
  "one_of_three =
     \<lparr>stage_passed = False, stage_documentType = None,
      elements = [check ''a'' False, check ''b'' True, check ''c'' False]\<rparr>"

definition no_outcomes :: stage_result where
  "no_outcomes = \<lparr>stage_passed = False, stage_documentType = None, elements = []\<rparr>"

definition scenario_methods :: methods where
  "scenario_methods =
     \<lparr>formatStage = (\<lambda>ev. Inr three_of_three),
      structureStage = (\<lambda>ev. Inr one_of_three),
      designStage = (\<lambda>ev. Inr three_of_three),
      securityStage = (\<lambda>ev. Inr three_of_three),
      validityStage = (\<lambda>ev. Inr three_of_three)\<rparr>"

text \<open>
  Sequences of random draws for the older validator. With \<open>rnd_a\<close> and \<open>rnd_b\<close> every
  detector sees the draw 1/2; they differ in the second draw only, which is the
  confidence of the first visible check. \<open>rnd_second_fails\<close> makes the three detectors
  of the second-level stage (draws 10 to 15) report nothing and every other detector
  report its feature.
\<close>

definition rnd_a :: random_source where
  "rnd_a i = 1 / 2"

definition rnd_b :: random_source where
  "rnd_b i = (if i = 1 then 3 / 4 else 1 / 2)"

definition rnd_low :: random_source where
  "rnd_low i = 0"

definition rnd_high :: random_source where
  "rnd_high i = 9 / 10"

definition rnd_second_fails :: random_source where
  "rnd_second_fails i = (if 10 \<le> i \<and> i < 16 then 0 else 9 / 10)"

section \<open>The score loop computes the weighted percentage\<close>

lemma categoryScore_nonempty:
  "elements r \<noteq> [] \<Longrightarrow> categoryScore r = Num (stageScorePct r)"
  by (simp add: categoryScore_def stageScorePct_def)

lemma score_loop_known:
  "known W ds \<Longrightarrow>
   score_loop W ds (Num t, Num m) = (Num (t + weighted_points W ds), Num (m + weight_total W ds))"
proof (induction ds arbitrary: t m)
  case Nil
  then show ?case by simp
next
  case (Cons p ds)
  obtain c r where p: "p = (c, r)" by (cases p)
  from Cons.prems obtain w where w: "map_of W c = Some w" and k: "known W ds"
    by (auto simp: known_def p)
  have wo: "weight_of W c = Num (real w)" "weight W c = real w"
    by (simp_all add: weight_of_def weight_def w)
  show ?case
  proof (cases "elements r = []")
    case True
    then show ?thesis
      using Cons.IH [OF k] by (simp add: p wo stageScorePct_def)
  next
    case False
    then show ?thesis
      using Cons.IH [OF k] by (simp add: p wo categoryScore_nonempty algebra_simps)
  qed
qed

lemma weight_nonneg: "0 \<le> weight W c"
  by (simp add: weight_def split: option.splits)

lemma weight_total_nonneg: "0 \<le> weight_total W ds"
  by (induction ds rule: weight_total.induct) (simp_all add: weight_nonneg)

lemma calculateScore_with_known:
  assumes "known W ds" and "0 < weight_total W ds"
  shows "calculateScore_with W ds =
           Num (of_int \<lfloor>weighted_points W ds / weight_total W ds * 100 + 1 / 2\<rfloor>)"
  using assms score_loop_known [OF assms(1), of 0 0]
  by (simp add: calculateScore_with_def)

lemma weight_pos: "positive W \<Longrightarrow> map_of W c = Some w \<Longrightarrow> 0 < weight W c"
  by (auto simp: positive_def weight_def list_all_iff dest!: map_of_SomeD)

lemma weight_total_pos:
  "positive W \<Longrightarrow> known W ds \<Longrightarrow> ds \<noteq> [] \<Longrightarrow> 0 < weight_total W ds"
proof (induction ds)
  case Nil
  then show ?case by simp
next
  case (Cons p ds)
  obtain c r where p: "p = (c, r)" by (cases p)
  from Cons.prems obtain w where w: "map_of W c = Some w"
    by (auto simp: known_def p)
  have "0 < weight W c" using weight_pos [OF Cons.prems(1) w] .
  moreover have "0 \<le> weight_total W ds" by (rule weight_total_nonneg)
  ultimately show ?case by (simp add: p)
qed

lemma weighted_points_append:
  "weighted_points W (xs @ ys) = weighted_points W xs + weighted_points W ys"
  by (induction xs rule: weighted_points.induct) simp_all

lemma weight_total_append:
  "weight_total W (xs @ ys) = weight_total W xs + weight_total W ys"
  by (induction xs rule: weight_total.induct) simp_all

lemma passed_count_all: "list_all passed es \<Longrightarrow> passed_count es = length es"
  by (simp add: passed_count_def list_all_iff)

lemma passed_count_le: "passed_count es \<le> length es"
  by (simp add: passed_count_def)

lemma passed_count_append: "passed_count (xs @ ys) = passed_count xs + passed_count ys"
  by (simp add: passed_count_def)

lemma passed_count_simps:
  "passed_count [] = 0"
  "passed_count (e # es) = (if passed e then Suc (passed_count es) else passed_count es)"
  by (simp_all add: passed_count_def)

lemma passed_count_nonempty: "2 \<le> passed_count es \<Longrightarrow> es \<noteq> []"
  by (auto simp: passed_count_def)

lemma stageScorePct_all_pass:
  "elements r \<noteq> [] \<Longrightarrow> list_all passed (elements r) \<Longrightarrow> stageScorePct r = 100"
  by (simp add: stageScorePct_def passed_count_all)

lemma full_pass_pct: "full_pass r \<Longrightarrow> stageScorePct r = 100"
  by (simp add: full_pass_def stageScorePct_all_pass)

lemma weighted_points_all_pass:
  "all_pass ds \<Longrightarrow> weighted_points W ds = weight_total W ds"
  by (induction ds rule: weighted_points.induct) (simp_all add: all_pass_def stageScorePct_all_pass)

lemma stageScorePct_range: "0 \<le> stageScorePct r \<and> stageScorePct r \<le> 100"
proof (cases "elements r = []")
  case True
  then show ?thesis by (simp add: stageScorePct_def)
next
  case False
  let ?q = "real (passed_count (elements r)) / real (length (elements r))"
  have "?q \<le> 1" using False passed_count_le [of "elements r"] by simp
  then have "?q * 100 \<le> 1 * 100" by (rule mult_right_mono) simp
  moreover have "0 \<le> ?q * 100" by simp
  ultimately show ?thesis using False by (simp only: stageScorePct_def if_False) simp
qed

lemma weighted_points_range:
  "0 \<le> weighted_points W ds \<and> weighted_points W ds \<le> weight_total W ds"
proof (induction ds rule: weighted_points.induct)
  case (1 W)
  then show ?case by simp
next
  case (2 W c r ds)
  have a: "0 \<le> stageScorePct r * (weight W c / 100)"
    using stageScorePct_range [of r] weight_nonneg [of W c] by simp
  have "stageScorePct r * (weight W c / 100) \<le> 100 * (weight W c / 100)"
    using stageScorePct_range [of r] weight_nonneg [of W c]
    by (intro mult_right_mono) simp_all
  then have b: "stageScorePct r * (weight W c / 100) \<le> weight W c" by simp
  show ?case using a b "2.IH" by simp
qed

lemma calculateScore_with_range:
  assumes "positive W" and "known W ds" and "ds \<noteq> []"
  shows "\<exists>n. calculateScore_with W ds = Num (of_int n) \<and> 0 \<le> n \<and> n \<le> 100"
proof -
  have pos: "0 < weight_total W ds" using assms by (rule weight_total_pos)
  let ?x = "weighted_points W ds / weight_total W ds * 100"
  have "0 \<le> weighted_points W ds / weight_total W ds"
    using weighted_points_range [of W ds] pos by simp
  then have lo: "0 \<le> ?x" by (rule mult_nonneg_nonneg) simp
  have "weighted_points W ds / weight_total W ds \<le> 1"
    using weighted_points_range [of W ds] pos by simp
  then have "?x \<le> 1 * 100" by (rule mult_right_mono) simp
  then have hi: "?x \<le> 100" by simp
  have "0 \<le> \<lfloor>?x + 1 / 2\<rfloor>" using lo by (simp add: floor_le_iff le_floor_iff)
  moreover have "\<lfloor>?x + 1 / 2\<rfloor> \<le> 100" using hi by (simp add: floor_le_iff)
  ultimately show ?thesis
    using calculateScore_with_known [OF assms(2) pos] by blast
qed

lemma positive_weights_table: "positive weights_table"
  by (simp add: positive_def weights_table_def)

lemma positive_weights_table_v1: "positive weights_table_v1"
  by (simp add: positive_def weights_table_v1_def)

lemma known_five:
  "known weights_table [(''format'', fr), (''structure'', sr), (''design'', dr),
                        (''security'', cr), (''validity'', vr)]"
  by (simp add: known_def weights_table_def)

lemma weight_table_simps:
  "weight weights_table ''format'' = 20" "weight weights_table ''structure'' = 25"
  "weight weights_table ''design'' = 20" "weight weights_table ''security'' = 25"
  "weight weights_table ''validity'' = 10"
  by (simp_all add: weight_def weights_table_def)

lemma stageScorePct_flip:
  assumes "elements r = es1 @ e # es2"
  shows "stageScorePct r \<le> stageScorePct (r\<lparr>elements := es1 @ e\<lparr>passed := True\<rparr> # es2\<rparr>)"
  using assms
  by (simp add: stageScorePct_def passed_count_append divide_right_mono)
     (simp add: passed_count_def divide_right_mono)

lemma weighted_points_flip:
  assumes "stageScorePct r \<le> stageScorePct r'"
  shows "weighted_points W (pre @ (c, r) # post) \<le> weighted_points W (pre @ (c, r') # post)"
  using assms weight_nonneg [of W c]
  by (simp add: weighted_points_append mult_right_mono)

lemma round_mono:
  fixes a b t :: real
  assumes "a \<le> b" and "0 < t"
  shows "\<lfloor>a / t * 100 + 1 / 2\<rfloor> \<le> \<lfloor>b / t * 100 + 1 / 2\<rfloor>"
proof (rule floor_mono)
  have "a / t \<le> b / t" using assms by (simp add: divide_right_mono)
  then have "a / t * 100 \<le> b / t * 100" by (rule mult_right_mono) simp
  then show "a / t * 100 + 1 / 2 \<le> b / t * 100 + 1 / 2" by linarith
qed

lemma calculateScore_with_flip:
  assumes "positive W" and "known W (pre @ (c, r) # post)" and "elements r = es1 @ e # es2"
  shows "js_le (calculateScore_with W (pre @ (c, r) # post))
               (calculateScore_with W (pre @ (c, r\<lparr>elements := es1 @ e\<lparr>passed := True\<rparr> # es2\<rparr>) # post))"
proof -
  let ?r' = "r\<lparr>elements := es1 @ e\<lparr>passed := True\<rparr> # es2\<rparr>"
  have k': "known W (pre @ (c, ?r') # post)" using assms(2) by (simp add: known_def)
  have pos: "0 < weight_total W (pre @ (c, r) # post)"
    using assms(1,2) by (rule weight_total_pos) simp
  have tot: "weight_total W (pre @ (c, ?r') # post) = weight_total W (pre @ (c, r) # post)"
    by (simp add: weight_total_append)
  have pos': "0 < weight_total W (pre @ (c, ?r') # post)" using pos tot by simp
  have le: "weighted_points W (pre @ (c, r) # post) \<le> weighted_points W (pre @ (c, ?r') # post)"
    by (rule weighted_points_flip) (rule stageScorePct_flip [OF assms(3)])
  show ?thesis
    unfolding calculateScore_with_known [OF assms(2) pos] calculateScore_with_known [OF k' pos'] tot
    using round_mono [OF le pos] by (simp add: js_le_def)
qed

section \<open>The orchestrator, case by case\<close>

lemma validateINE_with_thrown_early:
  assumes "extractFileSize (imageData ev) = Inl t"
  shows "validateINE_with M ev = Inl t"
  using assms by (simp add: validateINE_with_def)

lemma validateINE_with_gated:
  assumes "extractFileSize (imageData ev) = Inr n"
    and "formatStage M ev = Inr fr" and "\<not> stage_passed fr"
  shows "validateINE_with M ev =
           Inr \<lparr>isValid = False, score = Num 0, details = [(''format'', fr)],
                recommendations = [msg_gate], fileSize = n,
                documentType = stage_documentType fr, error = None\<rparr>"
  using assms by (simp add: validateINE_with_def set_detail_def)

lemma validateINE_with_complete:
  assumes "extractFileSize (imageData ev) = Inr n"
    and "formatStage M ev = Inr fr" and "stage_passed fr"
    and "structureStage M ev = Inr sr" and "designStage M ev = Inr dr"
    and "securityStage M ev = Inr cr" and "validityStage M ev = Inr vr"
  shows "validateINE_with M ev =
           Inr (let ds = [(''format'', fr), (''structure'', sr), (''design'', dr),
                          (''security'', cr), (''validity'', vr)] in
                \<lparr>isValid = js_ge (calculateScore ds) (Num 70), score = calculateScore ds,
                 details = ds, recommendations = generateRecommendations ds,
                 fileSize = n, documentType = stage_documentType fr, error = None\<rparr>)"
  using assms by (simp add: validateINE_with_def set_detail_def Let_def)

lemma validateINE_with_fault:
  assumes "extractFileSize (imageData ev) = Inr n"
    and "first_fault M ev = Some t" and "t \<noteq> Nullish"
  shows "\<exists>rep. validateINE_with M ev = Inr rep \<and> error rep = message_of t
               \<and> \<not> isValid rep \<and> score rep = Num 0"
  using assms
  by (cases t)
     (auto simp: first_fault_def validateINE_with_def set_detail_def caught_def Let_def
           split: sum.splits if_splits)

lemma validateINE_with_null_fault:
  assumes "extractFileSize (imageData ev) = Inr n" and "first_fault M ev = Some Nullish"
  shows "validateINE_with M ev = Inl message_TypeError"
  using assms
  by (auto simp: first_fault_def validateINE_with_def set_detail_def caught_def Let_def
           split: sum.splits if_splits)

lemma first_fault_INEValidator: "first_fault INEValidator ev = None"
  by (simp add: first_fault_def INEValidator_def)

lemma validateINE_with_no_fault:
  assumes "extractFileSize (imageData ev) = Inr n" and "first_fault M ev = None"
  shows "\<exists>rep k. validateINE_with M ev = Inr rep \<and> error rep = None
               \<and> score rep = Num (of_int k) \<and> 0 \<le> k \<and> k \<le> 100 \<and> isValid rep = (70 \<le> k)"
proof (cases "formatStage M ev")
  case (Inl f)
  then show ?thesis using assms(2) by (simp add: first_fault_def)
next
  case (Inr fr)
  show ?thesis
  proof (cases "stage_passed fr")
    case False
    let ?R = "\<lparr>isValid = False, score = Num 0, details = [(''format'', fr)],
                recommendations = [msg_gate], fileSize = n,
                documentType = stage_documentType fr, error = None\<rparr>"
    show ?thesis
      by (rule exI [of _ ?R], rule exI [of _ 0])
         (simp add: validateINE_with_gated [OF assms(1) Inr False])
  next
    case True
    from assms(2) Inr True obtain sr dr cr vr where
      st: "structureStage M ev = Inr sr" "designStage M ev = Inr dr"
          "securityStage M ev = Inr cr" "validityStage M ev = Inr vr"
      by (auto simp: first_fault_def split: sum.splits)
    let ?ds = "[(''format'', fr), (''structure'', sr), (''design'', dr),
                (''security'', cr), (''validity'', vr)]"
    obtain k where k: "calculateScore ?ds = Num (of_int k)" "0 \<le> k" "k \<le> 100"
      using calculateScore_with_range [OF positive_weights_table known_five, of fr sr dr cr vr]
      by (auto simp: calculateScore_def)
    let ?R = "\<lparr>isValid = js_ge (calculateScore ?ds) (Num 70), score = calculateScore ?ds,
                 details = ?ds, recommendations = generateRecommendations ?ds,
                 fileSize = n, documentType = stage_documentType fr, error = None\<rparr>"
    have "validateINE_with M ev = Inr ?R"
      using validateINE_with_complete [OF assms(1) Inr True st] by (simp add: Let_def)
    then show ?thesis
      using k by - (rule exI [of _ ?R], rule exI [of _ k], auto simp: js_ge_def js_le_def)
  qed
qed

section \<open>Every stage method obeys its quorum\<close>

lemma meets_quorum_quorum: "meets_quorum k (quorum k r)"
  by (simp add: meets_quorum_def quorum_def)

lemma sample_curp:
  "validateCURPFormat ''GOME800705HDFMLR09''"
  "\<not> validateElectorKeyFormat ''GOME800705HDFMLR09''"
  by (simp_all add: validateCURPFormat_def validateElectorKeyFormat_def curpPattern_def
        electorKeyPattern_def upper_def digit_def upper_or_digit_def sex_letter_def
        numeral_eq_Suc)

lemma quorum_format: "meets_quorum 3 (validateDocumentFormat ev)"
  by (auto simp: validateDocumentFormat_def meets_quorum_def push_def check_def Let_def
        passed_count_simps split: option.splits jsval.splits)

text \<open>
  When its first load succeeds, \<open>validateStructure\<close> pushes the outcomes of the CURP and
  of the elector key, of which the second is always a failure, before it loads again.
\<close>

lemma structure_first_load:
  assumes "createImage ev StructureLoad = Some i"
  shows "validateStructure ev =
           (let results = \<lparr>stage_passed = False, stage_documentType = None,
                             elements = [check ''Formato CURP'' (looksLikeINE (analyzeImageContent i)),
                                         check ''Clave de elector'' False]\<rparr>
            in case detectINEText ev of
                 None \<Rightarrow> push results (check ''Estructura de datos'' False)
               | Some hasINEText \<Rightarrow> quorum 2 (push results (check ''Texto oficial INE'' hasINEText)))"
  by (cases "looksLikeINE (analyzeImageContent i)")
     (simp_all add: validateStructure_def extractTextFromImage_def assms sample_curp push_def
        check_def Let_def split: option.splits)

lemma quorum_structure: "meets_quorum 2 (validateStructure ev)"
proof (cases "createImage ev StructureLoad")
  case None
  then show ?thesis
    by (simp add: validateStructure_def extractTextFromImage_def meets_quorum_def push_def
          check_def passed_count_simps)
next
  case (Some i)
  show ?thesis
    unfolding structure_first_load [OF Some]
    by (simp add: Let_def meets_quorum_quorum split: option.splits)
       (simp add: meets_quorum_def push_def check_def passed_count_simps)
qed

lemma quorum_design: "meets_quorum 2 (validateOfficialDesign ev)"
  by (simp add: validateOfficialDesign_def Let_def meets_quorum_quorum split: option.splits)
     (simp add: meets_quorum_def push_def check_def passed_count_simps)

lemma quorum_security: "meets_quorum 2 (validateSecurityElements ev)"
  by (simp add: validateSecurityElements_def Let_def meets_quorum_quorum split: option.splits)
     (simp add: meets_quorum_def push_def check_def passed_count_simps)

lemma quorum_validity: "meets_quorum 2 (validateValidity ev)"
  by (simp add: validateValidity_def Let_def meets_quorum_quorum split: option.splits)
     (simp add: meets_quorum_def push_def check_def passed_count_simps)

lemma quorum_structure_v1: "meets_quorum 2 validateStructure_v1"
  by (simp add: validateStructure_v1_def Let_def meets_quorum_quorum)

lemma quorum_visible: "meets_quorum 3 (fst (validateVisibleElements rnd k))"
  by (simp add: validateVisibleElements_def meets_quorum_quorum split: prod.splits)

lemma quorum_secondLevel: "meets_quorum 2 (fst (validateSecondLevelElements rnd k))"
  by (simp add: validateSecondLevelElements_def meets_quorum_quorum split: prod.splits)

lemma quorum_qr: "meets_quorum 2 (fst (validateQRCodes rnd k))"
  using passed_count_nonempty
  by (auto simp: validateQRCodes_def meets_quorum_def Let_def split: prod.splits)

lemma quorum_validity_v1: "meets_quorum 2 (validateValidity_v1 ev)"
  by (simp add: validateValidity_v1_def Let_def meets_quorum_quorum)

section \<open>Recommendations as a filter over the pipeline\<close>

lemmas msg_defs = msg_format_def msg_structure_def msg_design_def msg_security_def
  msg_validity_def msg_all_passed_def msg_structure_v1_def msg_visible_v1_def

lemma generateRecommendations_filter:
  "generateRecommendations ds =
     (if failing ds ''format'' then [msg_format]
      else if filter (failing ds) pipeline = [] then [msg_all_passed]
      else map stage_message (filter (failing ds) pipeline))"
  by (simp add: generateRecommendations_def pipeline_def stage_message_def Let_def)

lemma generateRecommendations_distinct: "distinct (generateRecommendations ds)"
  by (simp add: generateRecommendations_def Let_def msg_defs)

lemma generateRecommendations_v1_eq:
  "generateRecommendations_v1 ds =
     (let ms = (if failing ds ''structure'' then [msg_structure_v1] else [])
               @ (if many_visible_failed ds then [msg_visible_v1] else [])
               @ (if failing ds ''validity'' then [msg_validity] else [])
      in if ms = [] then [msg_all_passed] else ms)"
  by (simp add: generateRecommendations_v1_def Let_def)

lemma generateRecommendations_v1_distinct: "distinct (generateRecommendations_v1 ds)"
  by (simp add: generateRecommendations_v1_def Let_def msg_defs)

section \<open>The older validator up to confidence values\<close>

lemma erase_element_outcome: "erase_element e = check (fst (outcome_of e)) (snd (outcome_of e))"
  by (simp add: erase_element_def check_def outcome_of_def)

lemma erase_elements_cong:
  assumes "map outcome_of es = map outcome_of es'"
  shows "map erase_element es = map erase_element es'"
proof -
  have "map (\<lambda>p. check (fst p) (snd p)) (map outcome_of es)
        = map (\<lambda>p. check (fst p) (snd p)) (map outcome_of es')"
    using assms by (rule arg_cong)
  then show ?thesis
    by (simp add: comp_def erase_element_outcome [symmetric])
qed

lemma passed_count_cong:
  assumes "map outcome_of es = map outcome_of es'"
  shows "passed_count es = passed_count es'"
proof -
  have "length (filter snd (map outcome_of es)) = length (filter snd (map outcome_of es'))"
    using assms by simp
  then show ?thesis
    by (simp add: filter_map comp_def passed_count_def outcome_of_def)
qed

lemma erase_stage_cong:
  assumes "meets_quorum k r" and "meets_quorum k r'"
    and "stage_documentType r = None" and "stage_documentType r' = None"
    and "map outcome_of (elements r) = map outcome_of (elements r')"
  shows "erase_stage r = erase_stage r'"
proof -
  have "stage_passed r = stage_passed r'"
    using assms(1,2) passed_count_cong [OF assms(5)] by (simp add: meets_quorum_def)
  moreover have "map erase_element (elements r) = map erase_element (elements r')"
    using assms(5) by (rule erase_elements_cong)
  ultimately show ?thesis
    using assms(3,4) by (simp add: erase_stage_def stage_result.equality)
qed

lemma detect_loop_documentType:
  "detect_loop f b xs rnd (r, k) = (r', k') \<Longrightarrow> stage_documentType r' = stage_documentType r"
proof (induction xs arbitrary: r k)
  case Nil
  then show ?case by simp
next
  case (Cons x xs)
  obtain n m where x: "x = (n, m)" by (cases x)
  obtain d k1 where m: "m rnd k = (d, k1)" by (cases "m rnd k")
  from Cons.prems have "stage_documentType r' = stage_documentType
      (push r \<lparr>name = n, passed = d,
               confidence = Some (if d then rnd k1 * f + b else rnd k1 * f)\<rparr>)"
    by (intro Cons.IH) (simp add: x m Math_random_def)
  then show ?case by (simp add: push_def)
qed

lemma visible_documentType: "stage_documentType (fst (validateVisibleElements rnd k)) = None"
proof -
  obtain r' k' where d: "detect_loop 30 70 elementsToCheck rnd
      (\<lparr>stage_passed = False, stage_documentType = None, elements = []\<rparr>, k) = (r', k')"
    by (cases "detect_loop 30 70 elementsToCheck rnd
      (\<lparr>stage_passed = False, stage_documentType = None, elements = []\<rparr>, k)")
  show ?thesis
    using detect_loop_documentType [OF d] by (simp add: validateVisibleElements_def d quorum_def)
qed

lemma secondLevel_documentType:
  "stage_documentType (fst (validateSecondLevelElements rnd k)) = None"
proof -
  obtain r' k' where d: "detect_loop 25 75 secondLevelElements rnd
      (\<lparr>stage_passed = False, stage_documentType = None, elements = []\<rparr>, k) = (r', k')"
    by (cases "detect_loop 25 75 secondLevelElements rnd
      (\<lparr>stage_passed = False, stage_documentType = None, elements = []\<rparr>, k)")
  show ?thesis
    using detect_loop_documentType [OF d]
    by (simp add: validateSecondLevelElements_def d quorum_def)
qed

lemma qr_documentType: "stage_documentType (fst (validateQRCodes rnd k)) = None"
  by (simp add: validateQRCodes_def Let_def push_def split: prod.splits option.splits)

lemma validateINE_v1_thrown_early:
  assumes "extractFileSize (imageData ev) = Inl t"
  shows "validateINE_v1 ev rnd = Inl t"
  using assms by (simp add: validateINE_v1_def)

lemma validateINE_v1_shape:
  assumes "extractFileSize (imageData ev) = Inr n"
  shows "\<exists>V L Q. meets_quorum 3 V \<and> stage_documentType V = None
         \<and> meets_quorum 2 L \<and> stage_documentType L = None
         \<and> meets_quorum 2 Q \<and> stage_documentType Q = None
         \<and> validateINE_v1 ev rnd =
             Inr (finish_v1 n [(''structure'', validateStructure_v1), (''visible'', V),
                               (''secondLevel'', L), (''qr'', Q),
                               (''validity'', validateValidity_v1 ev)])"
proof -
  obtain V k1 where v: "validateVisibleElements rnd 0 = (V, k1)"
    by (cases "validateVisibleElements rnd 0")
  obtain L k2 where l: "validateSecondLevelElements rnd k1 = (L, k2)"
    by (cases "validateSecondLevelElements rnd k1")
  obtain Q k3 where q: "validateQRCodes rnd k2 = (Q, k3)"
    by (cases "validateQRCodes rnd k2")
  have "meets_quorum 3 V" "stage_documentType V = None"
    using quorum_visible [of rnd 0] visible_documentType [of rnd 0] by (simp_all add: v)
  moreover have "meets_quorum 2 L" "stage_documentType L = None"
    using quorum_secondLevel [of rnd k1] secondLevel_documentType [of rnd k1] by (simp_all add: l)
  moreover have "meets_quorum 2 Q" "stage_documentType Q = None"
    using quorum_qr [of rnd k2] qr_documentType [of rnd k2] by (simp_all add: q)
  moreover have "validateINE_v1 ev rnd =
      Inr (finish_v1 n [(''structure'', validateStructure_v1), (''visible'', V),
                        (''secondLevel'', L), (''qr'', Q), (''validity'', validateValidity_v1 ev)])"
    by (simp add: validateINE_v1_def assms v l q set_detail_def finish_v1_def Let_def)
  ultimately show ?thesis by blast
qed

lemma passed_count_erase: "passed_count (map erase_element es) = passed_count es"
  by (simp add: passed_count_def filter_map comp_def erase_element_def)

lemma categoryScore_erase: "categoryScore (erase_stage r) = categoryScore r"
  by (simp add: categoryScore_def erase_stage_def passed_count_erase)

lemma score_loop_erase: "score_loop W (erase_details ds) acc = score_loop W ds acc"
proof (induction ds arbitrary: acc)
  case Nil
  then show ?case by (simp add: erase_details_def)
next
  case (Cons p ds)
  obtain c r where p: "p = (c, r)" by (cases p)
  obtain t m where acc: "acc = (t, m)" by (cases acc)
  have e: "(elements (erase_stage r) = []) = (elements r = [])"
    by (simp add: erase_stage_def)
  have "score_loop W (erase_details (p # ds)) acc =
        score_loop W (erase_details ds)
          (if elements r \<noteq> []
           then js_add t (js_mul (categoryScore r) (js_div (weight_of W c) (Num 100))) else t,
           js_add m (weight_of W c))"
    by (simp add: erase_details_def p acc e categoryScore_erase)
  then show ?case using Cons.IH by (simp add: p acc)
qed

lemma calculateScore_v1_erase: "calculateScore_v1 (erase_details ds) = calculateScore_v1 ds"
  by (simp add: calculateScore_v1_def calculateScore_with_def score_loop_erase)

lemma map_of_erase: "map_of (erase_details ds) k = map_option erase_stage (map_of ds k)"
  by (induction ds) (auto simp: erase_details_def)

lemma failing_erase: "failing (erase_details ds) k = failing ds k"
  by (simp add: failing_def map_of_erase erase_stage_def split: option.splits)

lemma many_visible_failed_erase: "many_visible_failed (erase_details ds) = many_visible_failed ds"
  by (simp add: many_visible_failed_def map_of_erase erase_stage_def filter_map comp_def
        erase_element_def split: option.splits)

lemma generateRecommendations_v1_erase:
  "generateRecommendations_v1 (erase_details ds) = generateRecommendations_v1 ds"
  by (simp add: generateRecommendations_v1_def failing_erase many_visible_failed_erase)

lemma erase_finish_v1: "erase_confidence (finish_v1 n ds) = finish_v1 n (erase_details ds)"
  by (simp add: erase_confidence_def finish_v1_def calculateScore_v1_erase
        generateRecommendations_v1_erase)

lemma same_outcomes_v1:
  assumes "observe outcomes (validateINE_v1 ev rnd1) = observe outcomes (validateINE_v1 ev rnd2)"
  shows "observe erase_confidence (validateINE_v1 ev rnd1)
         = observe erase_confidence (validateINE_v1 ev rnd2)"
proof (cases "extractFileSize (imageData ev)")
  case (Inl t)
  then show ?thesis by (simp add: validateINE_v1_thrown_early)
next
  case (Inr n)
  obtain V L Q where a: "meets_quorum 3 V" "stage_documentType V = None"
      "meets_quorum 2 L" "stage_documentType L = None"
      "meets_quorum 2 Q" "stage_documentType Q = None"
      "validateINE_v1 ev rnd1 =
         Inr (finish_v1 n [(''structure'', validateStructure_v1), (''visible'', V),
                           (''secondLevel'', L), (''qr'', Q), (''validity'', validateValidity_v1 ev)])"
    using validateINE_v1_shape [OF Inr, of rnd1] by blast
  obtain V' L' Q' where b: "meets_quorum 3 V'" "stage_documentType V' = None"
      "meets_quorum 2 L'" "stage_documentType L' = None"
      "meets_quorum 2 Q'" "stage_documentType Q' = None"
      "validateINE_v1 ev rnd2 =
         Inr (finish_v1 n [(''structure'', validateStructure_v1), (''visible'', V'),
                           (''secondLevel'', L'), (''qr'', Q'), (''validity'', validateValidity_v1 ev)])"
    using validateINE_v1_shape [OF Inr, of rnd2] by blast
  from assms have e: "map outcome_of (elements V) = map outcome_of (elements V')"
      "map outcome_of (elements L) = map outcome_of (elements L')"
      "map outcome_of (elements Q) = map outcome_of (elements Q')"
    by (simp_all add: a(7) b(7) observe_def outcomes_def finish_v1_def)
  have "erase_stage V = erase_stage V'" using a(1) b(1) a(2) b(2) e(1) by (rule erase_stage_cong)
  moreover have "erase_stage L = erase_stage L'"
    using a(3) b(3) a(4) b(4) e(2) by (rule erase_stage_cong)
  moreover have "erase_stage Q = erase_stage Q'"
    using a(5) b(5) a(6) b(6) e(3) by (rule erase_stage_cong)
  ultimately show ?thesis
    by (simp add: a(7) b(7) observe_def erase_finish_v1 erase_details_def)
qed

section \<open>The validator depends on the clock through one comparison\<close>

lemma same_evidence_fields:
  assumes "same_evidence ev ev'"
  shows "imageData ev = imageData ev'" and "createImage ev = createImage ev'"
    and "analyzeColors ev = analyzeColors ev'"
    and "extractTextFromImage ev = extractTextFromImage ev'"
    and "detectINEText ev = detectINEText ev'"
  using assms
  by (simp_all add: same_evidence_def createImage_def analyzeColors_def
        extractTextFromImage_def detectINEText_def fun_eq_iff)

lemma same_evidence_format:
  assumes "same_evidence ev ev'"
  shows "validateDocumentFormat ev = validateDocumentFormat ev'"
  unfolding validateDocumentFormat_def same_evidence_fields [OF assms]
  by (rule refl)

lemma same_evidence_structure:
  assumes "same_evidence ev ev'"
  shows "validateStructure ev = validateStructure ev'"
  unfolding validateStructure_def same_evidence_fields [OF assms]
  by (rule refl)

lemma same_evidence_design:
  assumes "same_evidence ev ev'"
  shows "validateOfficialDesign ev = validateOfficialDesign ev'"
  unfolding validateOfficialDesign_def same_evidence_fields [OF assms]
  by (rule refl)

lemma same_evidence_security:
  assumes "same_evidence ev ev'"
  shows "validateSecurityElements ev = validateSecurityElements ev'"
  unfolding validateSecurityElements_def same_evidence_fields [OF assms]
  by (rule refl)

lemma not_expired_iff:
  "js_gt (Date_of ''2029-01-15'') (Num (real_of_int n)) = (n < 1863129600000)"
proof -
  have "(real_of_int n < 1863129600000) = (n < 1863129600000)"
    using of_int_less_iff [of n 1863129600000, where ?'a = real] by simp
  then show ?thesis by (simp add: js_gt_def Date_of_def)
qed

lemma same_evidence_validity:
  assumes "same_evidence ev ev'"
  shows "validateValidity ev = validateValidity ev'"
proof (cases "createImage ev' ValidityLoad")
  case None
  then show ?thesis
    using same_evidence_fields(2) [OF assms]
    by (simp add: validateValidity_def extractTextFromImage_def)
next
  case (Some i)
  have c: "createImage ev ValidityLoad = Some i"
    using same_evidence_fields(2) [OF assms] Some by simp
  have n: "(now ev < 1863129600000) = (now ev' < 1863129600000)"
    using assms by (simp add: same_evidence_def)
  show ?thesis
    by (simp add: validateValidity_def extractTextFromImage_def c Some Let_def not_expired_iff n)
qed

lemma same_evidence_report:
  assumes "same_evidence ev ev'"
  shows "validateINE ev = validateINE ev'"
  unfolding validateINE_def validateINE_with_def INEValidator_def methods.simps
    same_evidence_format [OF assms] same_evidence_structure [OF assms]
    same_evidence_design [OF assms] same_evidence_security [OF assms]
    same_evidence_validity [OF assms] same_evidence_fields [OF assms]
  by (rule refl)

section \<open>The sample inputs, evaluated\<close>

lemma sample_image:
  "createImage sample_ev site = Some \<lparr>naturalWidth = 1000, naturalHeight = 600\<rparr>"
  "createImage fault_ev site = Some \<lparr>naturalWidth = 1000, naturalHeight = 600\<rparr>"
  "createImage second_load_fails_ev StructureLoad = Some \<lparr>naturalWidth = 1000, naturalHeight = 600\<rparr>"
  "createImage second_load_fails_ev INETextLoad = None"
  "createImage broken_ev site = None"
  by (simp_all add: createImage_def sample_ev_def fault_ev_def second_load_fails_ev_def
        broken_ev_def)

lemma sample_fields:
  "imageData sample_ev = Str ''data:image/png;base64,AAAA''" "colors fault_ev = None"
  "imageData object_ev = Truthy"
  by (simp_all add: sample_ev_def fault_ev_def object_ev_def)

lemma sample_size: "extractFileSize (imageData sample_ev) = Inr 3"
  by (simp add: sample_fields extractFileSize_def startsWith_def item_def)

lemma sample_analysis:
  "analyzeImageContent \<lparr>naturalWidth = 1000, naturalHeight = 600\<rparr>
     = \<lparr>looksLikeINE = True, analysis_confidence = Num (8 / 10)\<rparr>"
  by (simp add: analyzeImageContent_def aspect_in_range_def js_ge_def js_le_def)

lemma sample_format: "stage_passed (validateDocumentFormat sample_ev)"
  by (simp add: validateDocumentFormat_def sample_image aspect_in_range_def js_ge_def js_le_def
        startsWith_def sample_fields Let_def)

section \<open>The claims\<close>

text \<open>
  Claim C1. Whenever the format stage fails in a run of \<open>validateINE\<close> (a run reaches
  the format stage once \<open>extractFileSize\<close> has returned the size), the report returned
  holds in its details the format result and nothing else, with score 0, not valid, and
  exactly one recommendation, the one that explains the gating failure. No later stage
  has an entry, real or made up.
\<close>

theorem gating_failure_report:
  assumes "extractFileSize (imageData ev) = Inr n"
    and "\<not> stage_passed (validateDocumentFormat ev)"
  shows "validateINE ev =
           Inr \<lparr>isValid = False, score = Num 0,
                details = [(''format'', validateDocumentFormat ev)],
                recommendations = [msg_gate], fileSize = n,
                documentType = stage_documentType (validateDocumentFormat ev), error = None\<rparr>"
  unfolding validateINE_def
  by (rule validateINE_with_gated) (simp_all add: INEValidator_def assms)

theorem gating_failure_report_witness:
  "extractFileSize (imageData small_ev) = Inr 3
   \<and> \<not> stage_passed (validateDocumentFormat small_ev)
   \<and> observe details (validateINE small_ev) = Inr [(''format'', validateDocumentFormat small_ev)]
   \<and> observe score (validateINE small_ev) = Inr (Num 0)
   \<and> observe isValid (validateINE small_ev) = Inr False
   \<and> observe recommendations (validateINE small_ev) = Inr [msg_gate]"
proof -
  have n: "extractFileSize (imageData small_ev) = Inr 3"
    by (simp add: small_ev_def sample_ev_def extractFileSize_def startsWith_def item_def)
  have h: "\<not> stage_passed (validateDocumentFormat small_ev)"
    by (simp add: validateDocumentFormat_def createImage_def small_ev_def sample_ev_def
          aspect_in_range_def js_ge_def js_le_def startsWith_def Let_def push_def)
  show ?thesis using n h gating_failure_report [OF n h] by (simp add: observe_def)
qed

text \<open>
  Claim C2, as amended. When \<open>imageData\<close> is a string or a falsy value, \<open>validateINE\<close>
  returns a report and does not throw: the stage methods of the class as written catch
  every fault themselves, and the report has no \<open>error\<close>. The same holds with any other
  stage methods that return or throw a value other than \<open>null\<close> and \<open>undefined\<close>: the
  report returned is well formed (its score is a whole number from 0 to 100 and it is
  valid exactly when the score is at least 70), and when a stage method throws, the
  report is not valid, has score 0, and its \<open>error\<close> is the \<open>message\<close> of the thrown
  value, which is populated when the value is an \<open>Error\<close>.
\<close>

theorem validateINE_faults:
  assumes "imageData ev \<noteq> Truthy"
  shows "(first_fault M ev \<noteq> Some Nullish \<longrightarrow>
            (\<exists>rep k. validateINE_with M ev = Inr rep
               \<and> score rep = Num (of_int k) \<and> 0 \<le> k \<and> k \<le> 100 \<and> isValid rep = (70 \<le> k)
               \<and> error rep = (case first_fault M ev of None \<Rightarrow> None | Some t \<Rightarrow> message_of t)
               \<and> (first_fault M ev \<noteq> None \<longrightarrow> \<not> isValid rep \<and> score rep = Num 0)))
         \<and> (\<exists>rep. validateINE ev = Inr rep \<and> error rep = None)"
proof -
  have "\<exists>n. extractFileSize (imageData ev) = Inr n"
    using assms by (cases "imageData ev") (simp_all add: extractFileSize_def Let_def)
  then obtain n where n: "extractFileSize (imageData ev) = Inr n" ..
  have a: "first_fault M ev \<noteq> Some Nullish \<longrightarrow>
            (\<exists>rep k. validateINE_with M ev = Inr rep
               \<and> score rep = Num (of_int k) \<and> 0 \<le> k \<and> k \<le> 100 \<and> isValid rep = (70 \<le> k)
               \<and> error rep = (case first_fault M ev of None \<Rightarrow> None | Some t \<Rightarrow> message_of t)
               \<and> (first_fault M ev \<noteq> None \<longrightarrow> \<not> isValid rep \<and> score rep = Num 0))"
  proof (cases "first_fault M ev")
    case None
    then show ?thesis using validateINE_with_no_fault [OF n None] by auto
  next
    case (Some t)
    show ?thesis
    proof
      assume "first_fault M ev \<noteq> Some Nullish"
      then have t: "t \<noteq> Nullish" using Some by simp
      obtain rep where r: "validateINE_with M ev = Inr rep" "error rep = message_of t"
          "\<not> isValid rep" "score rep = Num 0"
        using validateINE_with_fault [OF n Some t] by blast
      show "\<exists>rep k. validateINE_with M ev = Inr rep
               \<and> score rep = Num (of_int k) \<and> 0 \<le> k \<and> k \<le> 100 \<and> isValid rep = (70 \<le> k)
               \<and> error rep = (case first_fault M ev of None \<Rightarrow> None | Some t \<Rightarrow> message_of t)
               \<and> (first_fault M ev \<noteq> None \<longrightarrow> \<not> isValid rep \<and> score rep = Num 0)"
        using r Some by - (rule exI [of _ rep], rule exI [of _ 0], simp)
    qed
  qed
  have "\<exists>rep. validateINE ev = Inr rep \<and> error rep = None"
    using validateINE_with_no_fault [OF n first_fault_INEValidator]
    by (auto simp: validateINE_def)
  then show ?thesis using a by blast
qed

theorem validateINE_faults_witness:
  "imageData sample_ev \<noteq> Truthy
   \<and> first_fault faulty_methods sample_ev = Some (Error ''text extraction failed'')
   \<and> observe error (validateINE_with faulty_methods sample_ev) = Inr (Some ''text extraction failed'')
   \<and> observe isValid (validateINE_with faulty_methods sample_ev) = Inr False
   \<and> observe score (validateINE_with faulty_methods sample_ev) = Inr (Num 0)
   \<and> observe error (validateINE sample_ev) = Inr None"
proof -
  have s: "imageData sample_ev \<noteq> Truthy" by (simp add: sample_fields)
  have h: "first_fault faulty_methods sample_ev = Some (Error ''text extraction failed'')"
    by (simp add: first_fault_def faulty_methods_def INEValidator_def sample_format)
  show ?thesis
    using s h validateINE_faults [OF s, of faulty_methods]
    by (auto simp: observe_def)
qed

text \<open>
  The claim as first stated fails. Given an object that is not a string, \<open>validateINE\<close>
  throws the TypeError of \<open>extractFileSize\<close>, which is called before the \<open>try\<close>. And were
  a stage method to throw \<open>null\<close>, the \<open>catch\<close> would throw in its turn, and were it to
  throw a value without a message, the report would come back with no \<open>error\<close>.
\<close>

theorem validateINE_faults_counterexample:
  "validateINE object_ev = Inl startsWith_TypeError
   \<and> validateINE_with null_methods sample_ev = Inl message_TypeError
   \<and> first_fault bare_methods sample_ev = Some NoMessage
   \<and> observe error (validateINE_with bare_methods sample_ev) = Inr None"
proof -
  have a: "validateINE object_ev = Inl startsWith_TypeError"
    unfolding validateINE_def
    by (rule validateINE_with_thrown_early) (simp add: sample_fields extractFileSize_def)
  have b: "validateINE_with null_methods sample_ev = Inl message_TypeError"
    by (rule validateINE_with_null_fault [OF sample_size])
       (simp add: first_fault_def null_methods_def INEValidator_def sample_format)
  have c: "first_fault bare_methods sample_ev = Some NoMessage"
    by (simp add: first_fault_def bare_methods_def INEValidator_def sample_format)
  have "observe error (validateINE_with bare_methods sample_ev) = Inr None"
    using validateINE_with_fault [OF sample_size c] by (auto simp: observe_def)
  then show ?thesis using a b c by simp
qed

text \<open>
  Claim C3. A stage's flag is true exactly when at least \<open>k\<close> of its collected outcomes
  passed, whichever they are: the count alone decides. This holds of the quorum
  assignment for every \<open>k\<close> and every list of outcomes, and of the result of every stage
  method of both validators on every evidence and every sequence of random draws, with
  \<open>k\<close> = 3 for the format stage (all three of its checks) and for the visible stage,
  and \<open>k\<close> = 2 for the others; the paths through a \<open>catch\<close> are included.
\<close>

theorem stage_quorum_law:
  "meets_quorum k (quorum k r)
   \<and> meets_quorum 3 (validateDocumentFormat ev)
   \<and> meets_quorum 2 (validateStructure ev)
   \<and> meets_quorum 2 (validateOfficialDesign ev)
   \<and> meets_quorum 2 (validateSecurityElements ev)
   \<and> meets_quorum 2 (validateValidity ev)
   \<and> meets_quorum 2 validateStructure_v1
   \<and> meets_quorum 3 (fst (validateVisibleElements rnd i))
   \<and> meets_quorum 2 (fst (validateSecondLevelElements rnd i))
   \<and> meets_quorum 2 (fst (validateQRCodes rnd i))
   \<and> meets_quorum 2 (validateValidity_v1 ev)"
  by (simp add: meets_quorum_quorum quorum_format quorum_structure quorum_design
        quorum_security quorum_validity quorum_structure_v1 quorum_visible
        quorum_secondLevel quorum_qr quorum_validity_v1)

theorem stage_quorum_law_witness:
  "stage_passed (validateStructure sample_ev)
   \<and> passed_count (elements (validateStructure sample_ev)) = 2
   \<and> \<not> stage_passed (fst (validateVisibleElements rnd_low 0))
   \<and> passed_count (elements (fst (validateVisibleElements rnd_low 0))) = 0"
proof -
  have h: "passed_count (elements (validateStructure sample_ev)) = 2"
    "passed_count (elements (fst (validateVisibleElements rnd_low 0))) = 0"
    by (simp_all add: structure_first_load [OF sample_image(1)] detectINEText_def
          sample_image sample_analysis validateVisibleElements_def
          elementsToCheck_def detectMicrotext_def detectOVD_def detectUVInk_def
          detectRelief_def detectSecurityBackground_def random_above_def Math_random_def
          rnd_low_def push_def check_def quorum_def passed_count_simps Let_def)
  show ?thesis
    using h stage_quorum_law [of 2 no_outcomes sample_ev rnd_low 0]
    by (simp add: meets_quorum_def)
qed

text \<open>
  Claim C4. In a run of the five stages with the weights 20, 25, 20, 25, 10 where the
  format stage passes 3 of 3 checks, the structure stage passes 1 of 3 and so does not
  pass, and the design, security and validity stages pass all their checks, the report
  has score 83, is valid, and recommends exactly the structure message. The stage
  methods are arbitrary here: the statement is about the orchestrator, the score and the
  recommendations, whatever the detectors.
\<close>

theorem scenario_score_83:
  assumes n: "extractFileSize (imageData ev) = Inr n"
    and st: "formatStage M ev = Inr fr" "structureStage M ev = Inr sr"
      "designStage M ev = Inr dr" "securityStage M ev = Inr cr" "validityStage M ev = Inr vr"
    and f: "stage_passed fr" "length (elements fr) = 3" "passed_count (elements fr) = 3"
    and s: "\<not> stage_passed sr" "length (elements sr) = 3" "passed_count (elements sr) = 1"
    and rest: "full_pass dr" "full_pass cr" "full_pass vr"
  shows "observe score (validateINE_with M ev) = Inr (Num 83)
         \<and> observe isValid (validateINE_with M ev) = Inr True
         \<and> observe recommendations (validateINE_with M ev) = Inr [msg_structure]"
proof -
  let ?ds = "[(''format'', fr), (''structure'', sr), (''design'', dr),
              (''security'', cr), (''validity'', vr)]"
  have pf: "stageScorePct fr = 100" using f by (auto simp: stageScorePct_def)
  have ps: "stageScorePct sr = 100 / 3" using s by (auto simp: stageScorePct_def)
  have wp: "weighted_points weights_table ?ds = 250 / 3"
    by (simp add: weight_table_simps pf ps full_pass_pct rest)
  have wt: "weight_total weights_table ?ds = 100"
    by (simp add: weight_table_simps)
  have "calculateScore ?ds =
          Num (of_int \<lfloor>weighted_points weights_table ?ds / weight_total weights_table ?ds * 100
                 + 1 / 2\<rfloor>)"
    unfolding calculateScore_def
    by (rule calculateScore_with_known [OF known_five]) (simp only: wt)
  then have sc: "calculateScore ?ds = Num 83"
    by (simp only: wp wt) simp
  have rec: "generateRecommendations ?ds = [msg_structure]"
    using f(1) s(1) rest by (simp add: generateRecommendations_def failing_def full_pass_def)
  show ?thesis
    using validateINE_with_complete [OF n st(1) f(1) st(2-5)]
    by (simp add: observe_def Let_def sc rec js_ge_def js_le_def)
qed

theorem scenario_score_83_witness:
  "observe score (validateINE_with scenario_methods sample_ev) = Inr (Num 83)
   \<and> observe isValid (validateINE_with scenario_methods sample_ev) = Inr True
   \<and> observe recommendations (validateINE_with scenario_methods sample_ev) = Inr [msg_structure]"
  using scenario_score_83 [OF sample_size, of scenario_methods three_of_three one_of_three
      three_of_three three_of_three three_of_three]
  by (simp add: scenario_methods_def three_of_three_def one_of_three_def full_pass_def
        check_def passed_count_simps)

text \<open>
  Claim C5, as amended. The synthesizer of the validator returns the single format
  message when the format stage is there and failed. Otherwise it goes through
  structure, design, security and validity in pipeline order and appends exactly one
  stage-specific message for each of them that is there and failed, never one per
  failing check, and returns exactly one affirmative message when none failed. The
  synthesizer of the older validator reports on three stages only: structure when it
  failed, the visible stage when more than two of its checks failed, validity when it
  failed, with one message each, and returns the affirmative message when none of the
  three applies; a failing second-level or QR stage adds no message. Neither
  synthesizer ever repeats a message.
\<close>

theorem recommendations_per_stage:
  "generateRecommendations ds =
     (if failing ds ''format'' then [msg_format]
      else if filter (failing ds) pipeline = [] then [msg_all_passed]
      else map stage_message (filter (failing ds) pipeline))
   \<and> distinct (generateRecommendations ds)
   \<and> generateRecommendations_v1 ds =
     (let ms = (if failing ds ''structure'' then [msg_structure_v1] else [])
               @ (if many_visible_failed ds then [msg_visible_v1] else [])
               @ (if failing ds ''validity'' then [msg_validity] else [])
      in if ms = [] then [msg_all_passed] else ms)
   \<and> distinct (generateRecommendations_v1 ds)"
  using generateRecommendations_filter [of ds] generateRecommendations_distinct [of ds]
    generateRecommendations_v1_eq [of ds] generateRecommendations_v1_distinct [of ds]
  by simp

theorem recommendations_per_stage_witness:
  "generateRecommendations
     [(''format'', three_of_three), (''structure'', one_of_three), (''design'', three_of_three),
      (''security'', one_of_three), (''validity'', three_of_three)]
   = [msg_structure, msg_security]
   \<and> generateRecommendations_v1
     [(''structure'', one_of_three), (''visible'', three_of_three),
      (''secondLevel'', one_of_three), (''qr'', one_of_three), (''validity'', three_of_three)]
   = [msg_structure_v1]"
  using recommendations_per_stage
    [of "[(''format'', three_of_three), (''structure'', one_of_three), (''design'', three_of_three),
          (''security'', one_of_three), (''validity'', three_of_three)]"]
    recommendations_per_stage
    [of "[(''structure'', one_of_three), (''visible'', three_of_three),
          (''secondLevel'', one_of_three), (''qr'', one_of_three), (''validity'', three_of_three)]"]
  by (simp add: failing_def many_visible_failed_def pipeline_def stage_message_def
        three_of_three_def one_of_three_def check_def)

text \<open>
  The claim as first stated fails on the older validator: in this run its second-level
  stage fails, and the only recommendation is the affirmative message.
\<close>

theorem recommendations_per_stage_counterexample:
  "observe (stage_failed ''secondLevel'') (validateINE_v1 sample_ev rnd_second_fails) = Inr True
   \<and> observe recommendations (validateINE_v1 sample_ev rnd_second_fails) = Inr [msg_all_passed]"
  by code_simp

text \<open>
  Claim C6. For every table of positive weights and every non-empty details whose stages
  all have a weight, at least one outcome each, and only passing outcomes, the score
  is 100.
\<close>

theorem all_pass_scores_100:
  assumes "positive W" and "known W ds" and "ds \<noteq> []" and "all_pass ds"
  shows "calculateScore_with W ds = Num 100"
proof -
  have pos: "0 < weight_total W ds" using assms(1-3) by (rule weight_total_pos)
  have "weighted_points W ds / weight_total W ds = 1"
    using pos weighted_points_all_pass [OF assms(4), of W] by simp
  then show ?thesis
    using calculateScore_with_known [OF assms(2) pos] by simp
qed

theorem all_pass_scores_100_witness:
  "calculateScore [(''format'', three_of_three), (''validity'', three_of_three)] = Num 100
   \<and> calculateScore_v1 [(''visible'', three_of_three), (''qr'', three_of_three)] = Num 100"
  using all_pass_scores_100 [OF positive_weights_table,
      of "[(''format'', three_of_three), (''validity'', three_of_three)]"]
    all_pass_scores_100 [OF positive_weights_table_v1,
      of "[(''visible'', three_of_three), (''qr'', three_of_three)]"]
  by (simp add: calculateScore_def calculateScore_v1_def known_def all_pass_def
        weights_table_def weights_table_v1_def three_of_three_def check_def)

text \<open>
  Claim C7, as amended. A fault inside a stage method of the validator never leaves the
  method: the method still returns a result, which does not pass and holds the outcomes
  collected before the fault followed by exactly one failing outcome, named after the
  stage. The checks that had not run when the fault occurred are skipped, and none of
  their outcomes is collected. The faults are: a failed image load (at the start of
  each stage, and a second time in the structure stage, after the outcomes of the CURP
  and of the elector key), the canvas analysis throwing (in the design stage, before
  its first outcome), and the TypeError on image data that is not a string (in the
  format stage, after the outcomes of the aspect and of the size).
\<close>

theorem stage_fault_recorded:
  "(createImage ev FormatLoad = None \<longrightarrow>
      validateDocumentFormat ev
        = (stage_error ''Formato del documento'')\<lparr>stage_documentType := Some ''unknown''\<rparr>)
   \<and> (createImage ev FormatLoad = Some i \<and> \<not> is_string (imageData ev) \<longrightarrow>
      validateDocumentFormat ev
        = (cut_short
             [check (''Relaci'' @ [CHR 0xF3] @ ''n de aspecto'') (aspect_in_range i),
              check (''Tama'' @ [CHR 0xF1] @ ''o suficiente'')
                (naturalWidth i \<ge> 500 \<and> naturalHeight i \<ge> 300)]
             ''Formato del documento'')\<lparr>stage_documentType := Some ''unknown''\<rparr>)
   \<and> (createImage ev StructureLoad = None \<longrightarrow>
      validateStructure ev = stage_error ''Estructura de datos'')
   \<and> (createImage ev StructureLoad = Some j \<and> createImage ev INETextLoad = None \<longrightarrow>
      validateStructure ev
        = cut_short
            [check ''Formato CURP'' (looksLikeINE (analyzeImageContent j)),
             check ''Clave de elector'' False]
            ''Estructura de datos'')
   \<and> (createImage ev DesignLoad = None \<or> colors ev = None \<longrightarrow>
      validateOfficialDesign ev = stage_error (''Dise'' @ [CHR 0xF1] @ ''o oficial''))
   \<and> (createImage ev SecurityLoad = None \<longrightarrow>
      validateSecurityElements ev = stage_error ''Elementos de seguridad'')
   \<and> (createImage ev ValidityLoad = None \<longrightarrow>
      validateValidity ev = stage_error ''Vigencia'')"
proof (intro conjI impI)
  assume "createImage ev FormatLoad = None"
  then show "validateDocumentFormat ev
        = (stage_error ''Formato del documento'')\<lparr>stage_documentType := Some ''unknown''\<rparr>"
    by (simp add: validateDocumentFormat_def stage_error_def cut_short_def push_def)
next
  assume "createImage ev FormatLoad = Some i \<and> \<not> is_string (imageData ev)"
  then show "validateDocumentFormat ev
        = (cut_short
             [check (''Relaci'' @ [CHR 0xF3] @ ''n de aspecto'') (aspect_in_range i),
              check (''Tama'' @ [CHR 0xF1] @ ''o suficiente'')
                (naturalWidth i \<ge> 500 \<and> naturalHeight i \<ge> 300)]
             ''Formato del documento'')\<lparr>stage_documentType := Some ''unknown''\<rparr>"
    by (cases "imageData ev")
       (simp_all add: validateDocumentFormat_def is_string_def cut_short_def push_def Let_def)
next
  assume "createImage ev StructureLoad = None"
  then show "validateStructure ev = stage_error ''Estructura de datos''"
    by (simp add: validateStructure_def extractTextFromImage_def stage_error_def cut_short_def
          push_def)
next
  assume a: "createImage ev StructureLoad = Some j \<and> createImage ev INETextLoad = None"
  then have "detectINEText ev = None" by (simp add: detectINEText_def)
  then show "validateStructure ev
        = cut_short
            [check ''Formato CURP'' (looksLikeINE (analyzeImageContent j)),
             check ''Clave de elector'' False]
            ''Estructura de datos''"
    using a by (simp add: structure_first_load cut_short_def push_def)
next
  assume "createImage ev DesignLoad = None \<or> colors ev = None"
  then show "validateOfficialDesign ev = stage_error (''Dise'' @ [CHR 0xF1] @ ''o oficial'')"
    by (auto simp: validateOfficialDesign_def analyzeColors_def stage_error_def cut_short_def
          push_def Let_def split: option.splits)
next
  assume "createImage ev SecurityLoad = None"
  then show "validateSecurityElements ev = stage_error ''Elementos de seguridad''"
    by (simp add: validateSecurityElements_def stage_error_def cut_short_def push_def)
next
  assume "createImage ev ValidityLoad = None"
  then show "validateValidity ev = stage_error ''Vigencia''"
    by (simp add: validateValidity_def extractTextFromImage_def stage_error_def cut_short_def
          push_def)
qed

theorem stage_fault_recorded_witness:
  "createImage second_load_fails_ev StructureLoad = Some \<lparr>naturalWidth = 1000, naturalHeight = 600\<rparr>
   \<and> createImage second_load_fails_ev INETextLoad = None
   \<and> validateStructure second_load_fails_ev
       = cut_short [check ''Formato CURP'' True, check ''Clave de elector'' False]
           ''Estructura de datos''
   \<and> createImage broken_ev SecurityLoad = None
   \<and> validateSecurityElements broken_ev = stage_error ''Elementos de seguridad''"
  using stage_fault_recorded
      [of second_load_fails_ev _ "\<lparr>naturalWidth = 1000, naturalHeight = 600\<rparr>"]
    stage_fault_recorded [of broken_ev]
  by (simp add: sample_image sample_analysis)

text \<open>
  The claim as first stated fails: when the canvas analysis throws on an image on which
  the two other detectors of the design stage would report their feature, the stage
  returns the error outcome alone, and no outcome of the other detectors.
\<close>

theorem stage_fault_recorded_counterexample:
  "validateOfficialDesign fault_ev = stage_error (''Dise'' @ [CHR 0xF1] @ ''o oficial'')
   \<and> detectOfficialElements \<lparr>naturalWidth = 1000, naturalHeight = 600\<rparr>
   \<and> validateLayout \<lparr>naturalWidth = 1000, naturalHeight = 600\<rparr>
   \<and> map name (elements (validateOfficialDesign fault_ev)) = [''Dise'' @ [CHR 0xF1] @ ''o oficial'']"
  by (simp add: validateOfficialDesign_def sample_image analyzeColors_def sample_fields
        stage_error_def cut_short_def push_def check_def detectOfficialElements_def
        validateLayout_def sample_analysis)



text \<open>
  Claim C9, as amended. What a call of \<open>validateINE\<close> of the validator returns is
  determined by the image data, the outcomes of loading it, the outcome of the colour
  analysis, and the side of the expiry date on which the current time lies: two calls
  that agree on these return identical reports, and no random draw enters. Two calls of
  the older validator on the same evidence in which every check has the same outcome
  return reports that are identical in every field except the confidence values of the
  checks, which are random draws: the pass flags of the stages, the score, the verdict
  and the recommendations agree.
\<close>

theorem same_outcomes_same_report:
  "(same_evidence ev ev' \<longrightarrow> validateINE ev = validateINE ev')
   \<and> (observe outcomes (validateINE_v1 ev rnd1) = observe outcomes (validateINE_v1 ev rnd2) \<longrightarrow>
        observe erase_confidence (validateINE_v1 ev rnd1)
        = observe erase_confidence (validateINE_v1 ev rnd2))"
  using same_evidence_report [of ev ev'] same_outcomes_v1 [of ev rnd1 rnd2] by blast

theorem same_outcomes_same_report_witness:
  "same_evidence sample_ev earlier_ev
   \<and> validateINE sample_ev = validateINE earlier_ev
   \<and> observe outcomes (validateINE_v1 sample_ev rnd_a)
       = observe outcomes (validateINE_v1 sample_ev rnd_b)
   \<and> observe erase_confidence (validateINE_v1 sample_ev rnd_a)
       = observe erase_confidence (validateINE_v1 sample_ev rnd_b)"
proof -
  have s: "same_evidence sample_ev earlier_ev"
    by (simp add: same_evidence_def earlier_ev_def sample_ev_def)
  have h: "observe outcomes (validateINE_v1 sample_ev rnd_a)
       = observe outcomes (validateINE_v1 sample_ev rnd_b)"
    by code_simp
  show ?thesis
    using s h same_outcomes_same_report [of sample_ev earlier_ev rnd_a rnd_b] by simp
qed

text \<open>
  The claim as first stated fails on the older validator. Two runs on one evidence with
  the same outcome of every check differ in a confidence value, which is a random draw;
  and two runs on one evidence differ in the verdict, since the detectors draw their
  outcomes at random.
\<close>

theorem same_outcomes_same_report_counterexample:
  "observe outcomes (validateINE_v1 sample_ev rnd_a)
     = observe outcomes (validateINE_v1 sample_ev rnd_b)
   \<and> observe (confidences ''visible'') (validateINE_v1 sample_ev rnd_a)
       = Inr [Some 85, Some 85, Some 15, Some 15, Some 85]
   \<and> observe (confidences ''visible'') (validateINE_v1 sample_ev rnd_b)
       = Inr [Some (185 / 2), Some 85, Some 15, Some 15, Some 85]
   \<and> validateINE_v1 sample_ev rnd_a \<noteq> validateINE_v1 sample_ev rnd_b
   \<and> observe isValid (validateINE_v1 sample_ev rnd_high) = Inr True
   \<and> observe isValid (validateINE_v1 sample_ev rnd_low) = Inr False"
proof -
  have o: "observe outcomes (validateINE_v1 sample_ev rnd_a)
     = observe outcomes (validateINE_v1 sample_ev rnd_b)"
    by code_simp
  have ca: "observe (confidences ''visible'') (validateINE_v1 sample_ev rnd_a)
       = Inr [Some 85, Some 85, Some 15, Some 15, Some 85]"
    by code_simp
  have cb: "observe (confidences ''visible'') (validateINE_v1 sample_ev rnd_b)
       = Inr [Some (185 / 2), Some 85, Some 15, Some 15, Some 85]"
    by code_simp
  have ne: "validateINE_v1 sample_ev rnd_a \<noteq> validateINE_v1 sample_ev rnd_b"
  proof
    assume "validateINE_v1 sample_ev rnd_a = validateINE_v1 sample_ev rnd_b"
    then have "observe (confidences ''visible'') (validateINE_v1 sample_ev rnd_a)
        = observe (confidences ''visible'') (validateINE_v1 sample_ev rnd_b)"
      by simp
    then show False by (simp add: ca cb)
  qed
  have v: "observe isValid (validateINE_v1 sample_ev rnd_high) = Inr True"
    "observe isValid (validateINE_v1 sample_ev rnd_low) = Inr False"
    by code_simp+
  show ?thesis using o ca cb ne v by simp
qed

text \<open>
  Claim C10. The score is monotone in the outcomes: in details whose stages all have a
  configured weight, setting the pass flag of any one check to true (in particular,
  flipping it from false to true), everything else unchanged, never lowers the score
  that \<open>calculateScore\<close> returns. The same holds of the older validator's table.
\<close>

theorem score_monotone:
  assumes "elements r = es1 @ e # es2"
  shows "(known weights_table (pre @ (c, r) # post) \<longrightarrow>
            js_le (calculateScore (pre @ (c, r) # post))
                  (calculateScore (pre @ (c, r\<lparr>elements := es1 @ e\<lparr>passed := True\<rparr> # es2\<rparr>) # post)))
         \<and> (known weights_table_v1 (pre @ (c, r) # post) \<longrightarrow>
            js_le (calculateScore_v1 (pre @ (c, r) # post))
                  (calculateScore_v1 (pre @ (c, r\<lparr>elements := es1 @ e\<lparr>passed := True\<rparr> # es2\<rparr>) # post)))"
  using calculateScore_with_flip [OF positive_weights_table _ assms, of pre c post]
    calculateScore_with_flip [OF positive_weights_table_v1 _ assms, of pre c post]
  by (simp add: calculateScore_def calculateScore_v1_def)

theorem score_monotone_witness:
  "calculateScore [(''format'', three_of_three), (''structure'', one_of_three)] = Num 63
   \<and> calculateScore [(''format'', three_of_three),
        (''structure'', one_of_three\<lparr>elements := [check ''a'' True, check ''b'' True, check ''c'' False]\<rparr>)]
       = Num 81
   \<and> js_le (calculateScore [(''format'', three_of_three), (''structure'', one_of_three)])
       (calculateScore [(''format'', three_of_three),
          (''structure'', one_of_three\<lparr>elements := [check ''a'' True, check ''b'' True, check ''c'' False]\<rparr>)])"
proof -
  have a: "calculateScore [(''format'', three_of_three), (''structure'', one_of_three)] = Num 63"
    by code_simp
  have b: "calculateScore [(''format'', three_of_three),
        (''structure'', one_of_three\<lparr>elements := [check ''a'' True, check ''b'' True, check ''c'' False]\<rparr>)]
       = Num 81"
    by code_simp
  have k: "known weights_table ([(''format'', three_of_three)] @ (''structure'', one_of_three) # [])"
    by (simp add: known_def weights_table_def)
  have e: "elements one_of_three = [] @ check ''a'' False # [check ''b'' True, check ''c'' False]"
    by (simp add: one_of_three_def)
  have "js_le (calculateScore [(''format'', three_of_three), (''structure'', one_of_three)])
       (calculateScore [(''format'', three_of_three),
          (''structure'', one_of_three\<lparr>elements := [check ''a'' True, check ''b'' True, check ''c'' False]\<rparr>)])"
    using score_monotone [OF e, of "[(''format'', three_of_three)]" "''structure''" "[]"] k
    by (simp add: check_def)
  then show ?thesis using a b by simp
qed

end
